theory Spec2Isabelle
  imports Complex_Main
begin

section \<open>Values of the TypeScript sources\<close>

text \<open>
  A thrown value is either the repository's \<open>AppError(message, statusCode)\<close> or any other
  exception (a driver or storage error), of which only the message is kept.
\<close>

datatype error = AppError string nat | Error string

fun message :: "error \<Rightarrow> string" where
  "message (AppError m c) = m"
| "message (Error m) = m"

text \<open>Decimal rendering of a non-negative integer inside a template literal.\<close>

definition digit :: "nat \<Rightarrow> char" where
  "digit d = ''0123456789'' ! d"

fun show_nat :: "nat \<Rightarrow> string" where
  "show_nat n = (if n < 10 then [digit n] else show_nat (n div 10) @ [digit (n mod 10)])"

declare show_nat.simps [simp del]

definition digit_val :: "char \<Rightarrow> nat" where
  "digit_val c = of_char c - 48"

definition read_nat :: "string \<Rightarrow> nat" where
  "read_nat s = foldl (\<lambda>a c. 10 * a + digit_val c) 0 s"

text \<open>JavaScript truthiness of a nullable string, and \<open>a || b\<close> on it.\<close>

definition truthy :: "string option \<Rightarrow> bool" where
  "truthy s = (case s of None \<Rightarrow> False | Some x \<Rightarrow> x \<noteq> [])"

definition orElse :: "string option \<Rightarrow> string \<Rightarrow> string" where
  "orElse s d = (case s of None \<Rightarrow> d | Some x \<Rightarrow> if x = [] then d else x)"

definition endsWith :: "string \<Rightarrow> string \<Rightarrow> bool" where
  "endsWith s suf = (take (length suf) (rev s) = rev suf)"

definition startsWith :: "string \<Rightarrow> string \<Rightarrow> bool" where
  "startsWith s pre = (take (length pre) s = pre)"

section \<open>Artifact store\<close>

text \<open>
  Modelled from the spec: \<open>BlobStorageService\<close> (services/blobStorageService) is imported by
  the sources but its file is absent. The spec (4.2, 6) gives the contract: the path is
  \<open>{kind}/{category}/{ownerId}/{fileName}\<close> (invoices have no category:
  \<open>Invoices/{ownerId}/{fileName}\<close>), an upload leaves the object fully present or absent,
  and deleting a path that holds nothing is not an error. A call may also fail as a whole
  (store unavailable); the error it throws then is the first argument, and the store is left
  as it was.
\<close>

datatype FileType = INVOICE | EXPENSE

type_synonym blob = "string \<times> string"

type_synonym blob_store = "string \<Rightarrow> blob option"

definition kindDir :: "FileType \<Rightarrow> string" where
  "kindDir t = (case t of INVOICE \<Rightarrow> ''Invoices'' | EXPENSE \<Rightarrow> ''Expense'')"

definition blobPathOf :: "FileType \<Rightarrow> string option \<Rightarrow> nat \<Rightarrow> string \<Rightarrow> string" where
  "blobPathOf t category ownerId fileName =
     kindDir t @ (case category of None \<Rightarrow> [] | Some c \<Rightarrow> ''/'' @ c)
       @ ''/'' @ show_nat ownerId @ ''/'' @ fileName"

definition uploadFile ::
  "error option \<Rightarrow> blob_store \<Rightarrow> string \<Rightarrow> string \<Rightarrow> FileType \<Rightarrow> nat \<Rightarrow> string
     \<Rightarrow> string option \<Rightarrow> error + (string \<times> blob_store)" where
  "uploadFile fails bs buffer fileName t ownerId contentType category =
     (case fails of
        Some e \<Rightarrow> Inl e
      | None \<Rightarrow>
          (let p = blobPathOf t category ownerId fileName
           in Inr (p, bs(p \<mapsto> (buffer, contentType)))))"

definition deleteFile :: "error option \<Rightarrow> blob_store \<Rightarrow> string \<Rightarrow> error + blob_store" where
  "deleteFile fails bs p = (case fails of Some e \<Rightarrow> Inl e | None \<Rightarrow> Inr (bs(p := None)))"

section \<open>Expense routes: attachment and PDF upload\<close>

text \<open>
  The fields of an expense row that the two upload handlers read and write.
\<close>

record expense =
  exp_id :: nat
  exp_userId :: nat
  billNumber :: "string option"
  attachmentFileName :: "string option"
  expenseFileName :: "string option"

record world =
  expenses :: "expense list"
  blobs :: blob_store

text \<open>
  Modelled from the spec: \<open>getExpenseById\<close>, \<open>updateExpenseAttachmentFilename\<close> and
  \<open>updateExpensePdfFilename\<close> live in services/expenseService, which is absent. Following the
  record-store contract of the spec (4.1: the owner must match on every read and write, a
  record of another owner is NotFound) and their invoice siblings in invoiceService, a read
  or a patch selects the row by \<open>id\<close> and \<open>userId\<close> and throws a 404 when no row matches. The
  first argument is the error thrown when the store itself fails during the call.
\<close>

definition ownsExpense :: "nat \<Rightarrow> nat \<Rightarrow> expense \<Rightarrow> bool" where
  "ownsExpense expenseId userId e = (exp_id e = expenseId \<and> exp_userId e = userId)"

definition getExpenseById :: "error option \<Rightarrow> expense list \<Rightarrow> nat \<Rightarrow> nat \<Rightarrow> error + expense" where
  "getExpenseById fails es expenseId userId =
     (case fails of
        Some e \<Rightarrow> Inl e
      | None \<Rightarrow>
          (case find (ownsExpense expenseId userId) es of
             None \<Rightarrow> Inl (AppError ''Expense not found'' 404)
           | Some e \<Rightarrow> Inr e))"

definition updateExpenseAttachmentFilename ::
  "error option \<Rightarrow> expense list \<Rightarrow> nat \<Rightarrow> nat \<Rightarrow> string \<Rightarrow> error + expense list" where
  "updateExpenseAttachmentFilename fails es expenseId userId fileName =
     (case fails of
        Some e \<Rightarrow> Inl e
      | None \<Rightarrow>
          if list_ex (ownsExpense expenseId userId) es
          then Inr (map (\<lambda>e. if ownsExpense expenseId userId e
                              then e\<lparr>attachmentFileName := Some fileName\<rparr> else e) es)
          else Inl (AppError ''Expense not found'' 404))"

definition updateExpensePdfFilename ::
  "error option \<Rightarrow> expense list \<Rightarrow> nat \<Rightarrow> nat \<Rightarrow> string \<Rightarrow> error + expense list" where
  "updateExpensePdfFilename fails es expenseId userId fileName =
     (case fails of
        Some e \<Rightarrow> Inl e
      | None \<Rightarrow>
          if list_ex (ownsExpense expenseId userId) es
          then Inr (map (\<lambda>e. if ownsExpense expenseId userId e
                              then e\<lparr>expenseFileName := Some fileName\<rparr> else e) es)
          else Inl (AppError ''Expense not found'' 404))"

text \<open>
  The multipart file of the request: \<open>extname\<close> is \<open>path.extname(req.file.originalname)\<close>.
  A request carries the authenticated user (if any), the result of \<open>decodeExpenseId\<close> on the
  route parameter (\<open>null\<close> is \<open>None\<close>) and the file (if any).
\<close>

record upload =
  extname :: string
  mimetype :: string
  buffer :: string

record request =
  req_user :: "nat option"
  req_id :: "int option"
  req_file :: "upload option"

text \<open>The outcome of a handler: a JSON reply, or \<open>next(error)\<close>.\<close>

datatype reply = Json nat string "string option" | Next error

text \<open>
  The external calls of a handler in the order it makes them; each may be made to throw.
\<close>

record faults =
  getExpense_fails :: "error option"
  upload_fails :: "error option"
  deleteOld_fails :: "error option"
  patch_fails :: "error option"
  deleteNew_fails :: "error option"

definition noFaults :: faults where
  "noFaults = \<lparr>getExpense_fails = None, upload_fails = None, deleteOld_fails = None,
                patch_fails = None, deleteNew_fails = None\<rparr>"

subsection \<open>POST /:id/attachment\<close>

definition attachmentExtension :: "upload \<Rightarrow> string" where
  "attachmentExtension f =
     (if extname f \<noteq> [] then extname f
      else if mimetype f = ''application/pdf'' then ''.pdf''
      else if startsWith (mimetype f) ''image/'' then ''.jpg'' else [])"

definition attachmentName :: "expense \<Rightarrow> nat \<Rightarrow> nat \<Rightarrow> upload \<Rightarrow> string" where
  "attachmentName e expenseId now f =
     orElse (billNumber e) (''BILL-'' @ show_nat expenseId) @ ''_'' @ show_nat now
       @ attachmentExtension f"

definition replaceAttachment ::
  "faults \<Rightarrow> nat \<Rightarrow> nat \<Rightarrow> nat \<Rightarrow> upload \<Rightarrow> expense \<Rightarrow> world \<Rightarrow> reply \<times> world" where
  "replaceAttachment F now userId expenseId f e w =
     (let fileName = attachmentName e expenseId now f in
      case uploadFile (upload_fails F) (blobs w) (buffer f) fileName EXPENSE userId (mimetype f)
             (Some ''Uploaded_Documents'') of
        Inl err \<Rightarrow> (Next err, w)
      | Inr (blobPath, bs1) \<Rightarrow>
          (case (if truthy (attachmentFileName e)
                 then deleteFile (deleteOld_fails F) bs1
                        (''Expense/Uploaded_Documents/'' @ show_nat userId @ ''/''
                           @ the (attachmentFileName e))
                 else Inr bs1) of
             Inl err \<Rightarrow> (Next err, w\<lparr>blobs := bs1\<rparr>)
           | Inr bs2 \<Rightarrow>
               (case updateExpenseAttachmentFilename (patch_fails F) (expenses w) expenseId userId
                       fileName of
                  Inl err \<Rightarrow>
                    (case deleteFile (deleteNew_fails F) bs2 blobPath of
                       Inl err' \<Rightarrow> (Next err', w\<lparr>blobs := bs2\<rparr>)
                     | Inr bs3 \<Rightarrow> (Next err, w\<lparr>blobs := bs3\<rparr>))
                | Inr es' \<Rightarrow>
                    (Json 200 ''Expense attachment uploaded successfully'' (Some fileName),
                     \<lparr>expenses = es', blobs = bs2\<rparr>))))"

definition postAttachment :: "faults \<Rightarrow> nat \<Rightarrow> request \<Rightarrow> world \<Rightarrow> reply \<times> world" where
  "postAttachment F now req w =
     (case req_user req of
        None \<Rightarrow> (Json 401 ''Unauthorized'' None, w)
      | Some userId \<Rightarrow>
          (case req_id req of
             None \<Rightarrow> (Json 400 ''Invalid expense ID'' None, w)
           | Some i \<Rightarrow>
               if i \<le> 0 then (Json 400 ''Invalid expense ID'' None, w)
               else
                 (case req_file req of
                    None \<Rightarrow> (Json 400 ''Attachment file is required'' None, w)
                  | Some f \<Rightarrow>
                      (case getExpenseById (getExpense_fails F) (expenses w) (nat i) userId of
                         Inl err \<Rightarrow> (Next err, w)
                       | Inr e \<Rightarrow> replaceAttachment F now userId (nat i) f e w))))"

subsection \<open>POST /:id/pdf\<close>

definition pdfName :: "expense \<Rightarrow> nat \<Rightarrow> string" where
  "pdfName e expenseId =
     (if truthy (billNumber e) \<and> endsWith (the (billNumber e)) ''.pdf''
      then the (billNumber e)
      else orElse (billNumber e) (''BILL-'' @ show_nat expenseId) @ ''.pdf'')"

definition replacePdf ::
  "faults \<Rightarrow> nat \<Rightarrow> nat \<Rightarrow> upload \<Rightarrow> expense \<Rightarrow> world \<Rightarrow> reply \<times> world" where
  "replacePdf F userId expenseId f e w =
     (let fileName = pdfName e expenseId in
      case uploadFile (upload_fails F) (blobs w) (buffer f) fileName EXPENSE userId (mimetype f)
             (Some ''Generated_pdfs'') of
        Inl err \<Rightarrow> (Next err, w)
      | Inr (blobPath, bs1) \<Rightarrow>
          (case (if truthy (expenseFileName e) \<and> the (expenseFileName e) \<noteq> fileName
                 then deleteFile (deleteOld_fails F) bs1
                        (''Expense/Generated_pdfs/'' @ show_nat userId @ ''/''
                           @ the (expenseFileName e))
                 else Inr bs1) of
             Inl err \<Rightarrow> (Next err, w\<lparr>blobs := bs1\<rparr>)
           | Inr bs2 \<Rightarrow>
               (case updateExpensePdfFilename (patch_fails F) (expenses w) expenseId userId
                       fileName of
                  Inl err \<Rightarrow>
                    (case deleteFile (deleteNew_fails F) bs2 blobPath of
                       Inl err' \<Rightarrow> (Next err', w\<lparr>blobs := bs2\<rparr>)
                     | Inr bs3 \<Rightarrow> (Next err, w\<lparr>blobs := bs3\<rparr>))
                | Inr es' \<Rightarrow>
                    (Json 200 ''Expense PDF uploaded successfully'' (Some fileName),
                     \<lparr>expenses = es', blobs = bs2\<rparr>))))"

definition postPdf :: "faults \<Rightarrow> request \<Rightarrow> world \<Rightarrow> reply \<times> world" where
  "postPdf F req w =
     (case req_user req of
        None \<Rightarrow> (Json 401 ''Unauthorized'' None, w)
      | Some userId \<Rightarrow>
          (case req_id req of
             None \<Rightarrow> (Json 400 ''Invalid expense ID'' None, w)
           | Some i \<Rightarrow>
               if i \<le> 0 then (Json 400 ''Invalid expense ID'' None, w)
               else
                 (case req_file req of
                    None \<Rightarrow> (Json 400 ''Expense PDF file is required'' None, w)
                  | Some f \<Rightarrow>
                      (case getExpenseById (getExpense_fails F) (expenses w) (nat i) userId of
                         Inl err \<Rightarrow> (Next err, w)
                       | Inr e \<Rightarrow> replacePdf F userId (nat i) f e w))))"

text \<open>
  Whether the artifact pointers of an expense row resolve: an empty pointer resolves
  trivially, a set one when the store holds an object at the path the download routes
  build from it.
\<close>

definition attachmentResolves :: "blob_store \<Rightarrow> expense \<Rightarrow> bool" where
  "attachmentResolves bs e =
     (if truthy (attachmentFileName e)
      then bs (''Expense/Uploaded_Documents/'' @ show_nat (exp_userId e) @ ''/''
                 @ the (attachmentFileName e)) \<noteq> None
      else True)"

definition pdfResolves :: "blob_store \<Rightarrow> expense \<Rightarrow> bool" where
  "pdfResolves bs e =
     (if truthy (expenseFileName e)
      then bs (''Expense/Generated_pdfs/'' @ show_nat (exp_userId e) @ ''/''
                 @ the (expenseFileName e)) \<noteq> None
      else True)"

subsection \<open>Scenarios of the upload handlers\<close>

text \<open>
  User 7 owns expense 3 with bill number \<open>B1\<close>; its attachment and its PDF are in the
  store. The second expense row already references the PDF name the handler derives.
\<close>

definition exUpload :: upload where
  "exUpload = \<lparr>extname = ''.png'', mimetype = ''image/png'', buffer = ''new bytes''\<rparr>"

definition exRequest :: request where
  "exRequest = \<lparr>req_user = Some 7, req_id = Some 3, req_file = Some exUpload\<rparr>"

definition exExpense :: expense where
  "exExpense = \<lparr>exp_id = 3, exp_userId = 7, billNumber = Some ''B1'',
                  attachmentFileName = Some ''B1_1000.jpg'', expenseFileName = Some ''OLD.pdf''\<rparr>"

definition exWorld :: world where
  "exWorld = \<lparr>expenses = [exExpense],
                blobs = [''Expense/Uploaded_Documents/7/B1_1000.jpg'' \<mapsto> (''old bytes'', ''image/jpeg''),
                         ''Expense/Generated_pdfs/7/OLD.pdf'' \<mapsto> (''old pdf'', ''application/pdf'')]\<rparr>"

definition patchFault :: faults where
  "patchFault = noFaults\<lparr>patch_fails := Some (Error ''connection terminated'')\<rparr>"

definition exPdfUpload :: upload where
  "exPdfUpload = \<lparr>extname = ''.pdf'', mimetype = ''application/pdf'', buffer = ''new pdf''\<rparr>"

definition exPdfRequest :: request where
  "exPdfRequest = \<lparr>req_user = Some 7, req_id = Some 3, req_file = Some exPdfUpload\<rparr>"

definition exExpense2 :: expense where
  "exExpense2 = exExpense\<lparr>expenseFileName := Some ''B1.pdf''\<rparr>"

definition exWorld2 :: world where
  "exWorld2 = \<lparr>expenses = [exExpense2],
                 blobs = [''Expense/Generated_pdfs/7/B1.pdf'' \<mapsto> (''old pdf'', ''application/pdf'')]\<rparr>"

section \<open>Invoice service\<close>

subsection \<open>Clock and dates\<close>

text \<open>
  \<open>env_now\<close> is the instant of the call in milliseconds since the epoch (\<open>new Date()\<close>,
  \<open>CURRENT_TIMESTAMP\<close>), \<open>env_tz\<close> the offset of the process's local time from UTC in
  milliseconds (taken as fixed). A date that reaches the service as a string is modelled by
  the instant \<open>new Date(string)\<close> denotes. \<open>env_numberDefault\<close> is what the store puts into
  \<open>invoiceNumber\<close> of a new row with a given id when the insert passes NULL (the schema is
  not part of the sources).
\<close>

record env =
  env_now :: int
  env_tz :: int
  env_numberDefault :: "nat \<Rightarrow> string option"

definition msPerDay :: int where
  "msPerDay = 86400000"

text \<open>\<open>d.setHours(0, 0, 0, 0)\<close>: midnight, local time, of the local day of \<open>d\<close>.\<close>

definition setHours0 :: "int \<Rightarrow> int \<Rightarrow> int" where
  "setHours0 tz t = ((t + tz) div msPerDay) * msPerDay - tz"

text \<open>The local calendar day of an instant, as a day number.\<close>

definition localDay :: "int \<Rightarrow> int \<Rightarrow> int" where
  "localDay tz t = (t + tz) div msPerDay"

text \<open>
  The status lines that \<open>createInvoice\<close> and \<open>updateInvoice\<close> both contain:
  \<open>dueDateObj < today ? 'overdue' : 'pending'\<close> after \<open>setHours(0, 0, 0, 0)\<close> on both.
\<close>

definition statusForDueDate :: "env \<Rightarrow> int \<Rightarrow> string" where
  "statusForDueDate E due =
     (if setHours0 (env_tz E) due < setHours0 (env_tz E) (env_now E)
      then ''overdue'' else ''pending'')"

subsection \<open>JavaScript defaults on numbers\<close>

definition numOr :: "real option \<Rightarrow> real \<Rightarrow> real" where
  "numOr x d = (case x of None \<Rightarrow> d | Some v \<Rightarrow> if v = 0 then d else v)"

definition natOr :: "nat option \<Rightarrow> nat \<Rightarrow> nat" where
  "natOr x d = (case x of None \<Rightarrow> d | Some v \<Rightarrow> if v = 0 then d else v)"

definition falsyNum :: "real option \<Rightarrow> bool" where
  "falsyNum x = (case x of None \<Rightarrow> True | Some v \<Rightarrow> v = 0)"

definition numOrNull :: "real option \<Rightarrow> real option" where
  "numOrNull x = (case x of None \<Rightarrow> None | Some v \<Rightarrow> if v = 0 then None else Some v)"

definition natOrNull :: "nat option \<Rightarrow> nat option" where
  "natOrNull x = (case x of None \<Rightarrow> None | Some v \<Rightarrow> if v = 0 then None else Some v)"

definition strOrNull :: "string option \<Rightarrow> string option" where
  "strOrNull x = (case x of None \<Rightarrow> None | Some v \<Rightarrow> if v = [] then None else Some v)"

subsection \<open>Tables\<close>

record user_row =
  usr_id :: nat
  usr_currency :: "string option"

record client_row =
  cl_id :: nat
  cl_userId :: nat

record project_row =
  pr_id :: nat
  pr_userId :: nat

record item_row =
  it_id :: nat
  it_userId :: nat
  it_name :: string

record invoice_item_row =
  ii_invoiceId :: nat
  ii_itemsId :: nat
  ii_quantity :: real
  ii_unitPrice :: real

record invoice =
  inv_id :: nat
  inv_userId :: nat
  inv_clientId :: nat
  inv_projectId :: "nat option"
  inv_invoiceNumber :: "string option"
  inv_invoiceDate :: int
  inv_dueDate :: int
  inv_subTotalAmount :: real
  inv_gst :: real
  inv_totalAmount :: real
  inv_currency :: string
  inv_totalInstallments :: nat
  inv_currentInstallment :: nat
  inv_additionalNotes :: string
  inv_paymentReminderRepetition :: "string list option"
  inv_status :: string
  inv_paymentTerms :: string
  inv_advanceAmount :: "real option"
  inv_balanceDue :: "real option"
  inv_balanceDueDate :: "int option"
  inv_createdAt :: int
  inv_updatedAt :: int
  invoice_file_name :: "string option"

record payment_row =
  pay_invoiceId :: nat
  pay_userId :: nat
  pay_amount :: real

record reminder_row =
  rem_invoiceId :: nat
  rem_dueDate :: int
  rem_repetition :: "string list"

record milestone_row =
  apm_id :: nat
  apm_agreementPaymentTermId :: nat
  apm_description :: "string option"
  apm_amount :: real
  apm_milestoneDate :: int
  apm_status :: "string option"

record payment_term_row =
  apt_id :: nat
  apt_agreementId :: nat

record agreement_row =
  ag_id :: nat
  ag_projectId :: nat
  ag_userId :: nat
  ag_serviceType :: string

record db =
  users :: "user_row list"
  master_clients :: "client_row list"
  projects :: "project_row list"
  items :: "item_row list"
  invoices :: "invoice list"
  invoice_items :: "invoice_item_row list"
  payments :: "payment_row list"
  payment_reminders :: "reminder_row list"
  agreement_payment_milestones :: "milestone_row list"
  agreement_payment_terms :: "payment_term_row list"
  agreements :: "agreement_row list"
  next_invoice_id :: nat
  next_item_id :: nat

definition ownsInvoice :: "nat \<Rightarrow> nat \<Rightarrow> invoice \<Rightarrow> bool" where
  "ownsInvoice invoiceId userId r = (inv_id r = invoiceId \<and> inv_userId r = userId)"

text \<open>
  Modelled from the spec: \<open>createPaymentReminders\<close> and \<open>deletePaymentRemindersByInvoiceId\<close>
  (services/paymentReminderService) and \<open>deletePaymentsByInvoiceId\<close>
  (services/paymentService) are absent. A reminder row records what the service is asked
  to schedule; deleting removes the rows of the invoice. Per the spec (4.1) leaving
  \<open>paid\<close> deletes the payment records of the invoice.
\<close>

definition createPaymentReminders :: "nat \<Rightarrow> int \<Rightarrow> string list \<Rightarrow> db \<Rightarrow> db" where
  "createPaymentReminders invoiceId dueDate repetition d =
     d\<lparr>payment_reminders := payment_reminders d
          @ [\<lparr>rem_invoiceId = invoiceId, rem_dueDate = dueDate, rem_repetition = repetition\<rparr>]\<rparr>"

definition deletePaymentRemindersByInvoiceId :: "nat \<Rightarrow> db \<Rightarrow> db" where
  "deletePaymentRemindersByInvoiceId invoiceId d =
     d\<lparr>payment_reminders := filter (\<lambda>r. rem_invoiceId r \<noteq> invoiceId) (payment_reminders d)\<rparr>"

definition deletePaymentsByInvoiceId :: "nat \<Rightarrow> nat \<Rightarrow> db \<Rightarrow> db" where
  "deletePaymentsByInvoiceId invoiceId userId d =
     d\<lparr>payments := filter (\<lambda>p. \<not> (pay_invoiceId p = invoiceId \<and> pay_userId p = userId)) (payments d)\<rparr>"

subsection \<open>mapInvoiceToResponse\<close>

definition mapInvoiceToResponse :: "invoice \<Rightarrow> invoice" where
  "mapInvoiceToResponse r =
     r\<lparr>inv_projectId := natOrNull (inv_projectId r),
       inv_currency := (if inv_currency r = [] then ''INR'' else inv_currency r),
       inv_status := (if inv_status r = [] then ''pending'' else inv_status r),
       inv_paymentTerms := (if inv_paymentTerms r = [] then ''full'' else inv_paymentTerms r),
       inv_advanceAmount := numOrNull (inv_advanceAmount r),
       inv_balanceDue := numOrNull (inv_balanceDue r)\<rparr>"

subsection \<open>createInvoice\<close>

record item_data =
  itemsId :: nat
  quantity :: real
  unitPrice :: real

record invoice_create_data =
  cd_userId :: nat
  cd_clientId :: nat
  cd_projectId :: "nat option"
  cd_invoiceNumber :: "string option"
  cd_invoiceDate :: int
  cd_dueDate :: int
  cd_subTotalAmount :: "real option"
  cd_gst :: "real option"
  cd_totalAmount :: "real option"
  cd_items :: "item_data list option"
  cd_currency :: "string option"
  cd_totalInstallments :: "nat option"
  cd_currentInstallment :: "nat option"
  cd_additionalNotes :: "string option"
  cd_paymentReminderRepetition :: "string list option"
  cd_paymentTerms :: "string option"
  cd_advanceAmount :: "real option"
  cd_balanceDue :: "real option"
  cd_balanceDueDate :: "int option"

definition itemsOf :: "invoice_create_data \<Rightarrow> item_data list" where
  "itemsOf d = (case cd_items d of None \<Rightarrow> [] | Some xs \<Rightarrow> xs)"

definition subTotalOf :: "invoice_create_data \<Rightarrow> real" where
  "subTotalOf d =
     (if itemsOf d \<noteq> [] \<and> falsyNum (cd_subTotalAmount d)
      then foldl (\<lambda>acc it. acc + quantity it * unitPrice it) 0 (itemsOf d)
      else numOr (cd_subTotalAmount d) 0)"

definition totalOf :: "invoice_create_data \<Rightarrow> real" where
  "totalOf d =
     (if itemsOf d \<noteq> [] \<and> falsyNum (cd_subTotalAmount d)
      then (if falsyNum (cd_totalAmount d) \<and> numOr (cd_gst d) 0 > 0
            then subTotalOf d + (subTotalOf d * numOr (cd_gst d) 0) / 100
            else if falsyNum (cd_totalAmount d) then subTotalOf d
            else numOr (cd_totalAmount d) 0)
      else numOr (cd_totalAmount d) 0)"

definition defaultCurrency :: "db \<Rightarrow> nat \<Rightarrow> string" where
  "defaultCurrency d userId =
     (case find (\<lambda>u. usr_id u = userId) (users d) of
        None \<Rightarrow> ''INR''
      | Some u \<Rightarrow> orElse (usr_currency u) ''INR'')"

definition newInvoiceRow :: "env \<Rightarrow> invoice_create_data \<Rightarrow> db \<Rightarrow> invoice" where
  "newInvoiceRow E d s =
     \<lparr>inv_id = next_invoice_id s,
      inv_userId = cd_userId d,
      inv_clientId = cd_clientId d,
      inv_projectId = natOrNull (cd_projectId d),
      inv_invoiceNumber =
        (case strOrNull (cd_invoiceNumber d) of
           None \<Rightarrow> env_numberDefault E (next_invoice_id s)
         | Some n \<Rightarrow> Some n),
      inv_invoiceDate = cd_invoiceDate d,
      inv_dueDate = cd_dueDate d,
      inv_subTotalAmount = subTotalOf d,
      inv_gst = numOr (cd_gst d) 0,
      inv_totalAmount = totalOf d,
      inv_currency = orElse (cd_currency d) (defaultCurrency s (cd_userId d)),
      inv_totalInstallments = natOr (cd_totalInstallments d) 1,
      inv_currentInstallment = natOr (cd_currentInstallment d) 1,
      inv_additionalNotes = orElse (cd_additionalNotes d) ''Thank you for your business'',
      inv_paymentReminderRepetition =
        (case cd_paymentReminderRepetition d of
           None \<Rightarrow> None
         | Some xs \<Rightarrow> if xs = [] then None else Some xs),
      inv_status = statusForDueDate E (cd_dueDate d),
      inv_paymentTerms = orElse (cd_paymentTerms d) ''full'',
      inv_advanceAmount = numOrNull (cd_advanceAmount d),
      inv_balanceDue = numOrNull (cd_balanceDue d),
      inv_balanceDueDate = cd_balanceDueDate d,
      inv_createdAt = env_now E,
      inv_updatedAt = env_now E,
      invoice_file_name = None\<rparr>"

definition itemKnown :: "db \<Rightarrow> nat \<Rightarrow> item_data \<Rightarrow> bool" where
  "itemKnown s userId it = list_ex (\<lambda>r. it_id r = itemsId it \<and> it_userId r = userId) (items s)"

text \<open>
  The body runs in one transaction: a throw rolls everything back and leaves the store as
  it was. \<open>storeFails\<close>: a query throws a driver error, which the catch block replaces by
  the 500. The reminders are created after the commit, in a try block of their own;
  \<open>remindersFail\<close> makes that call throw.
\<close>

definition createInvoice ::
  "env \<Rightarrow> bool \<Rightarrow> bool \<Rightarrow> invoice_create_data \<Rightarrow> db \<Rightarrow> (error + invoice) \<times> db" where
  "createInvoice E storeFails remindersFail d s =
     (if storeFails then (Inl (AppError ''Failed to create invoice'' 500), s)
      else if \<not> list_ex (\<lambda>u. usr_id u = cd_userId d) (users s)
      then (Inl (AppError ''User not found'' 404), s)
      else if \<not> list_ex (\<lambda>c. cl_id c = cd_clientId d \<and> cl_userId c = cd_userId d)
                   (master_clients s)
      then (Inl (AppError ''Client not found'' 404), s)
      else if natOrNull (cd_projectId d) \<noteq> None \<and>
              \<not> list_ex (\<lambda>p. Some (pr_id p) = cd_projectId d \<and> pr_userId p = cd_userId d)
                   (projects s)
      then (Inl (AppError ''Project not found'' 404), s)
      else
        (let row = newInvoiceRow E d s in
         case find (\<lambda>it. \<not> itemKnown s (cd_userId d) it) (itemsOf d) of
           Some bad \<Rightarrow>
             (Inl (AppError (''Item with ID '' @ show_nat (itemsId bad) @ '' not found'') 404), s)
         | None \<Rightarrow>
             (let s1 = s\<lparr>invoices := invoices s @ [row],
                         invoice_items := invoice_items s
                           @ map (\<lambda>it. \<lparr>ii_invoiceId = inv_id row, ii_itemsId = itemsId it,
                                         ii_quantity = quantity it, ii_unitPrice = unitPrice it\<rparr>)
                               (itemsOf d),
                         next_invoice_id := Suc (next_invoice_id s)\<rparr>;
                  s2 = (case cd_paymentReminderRepetition d of
                          None \<Rightarrow> s1
                        | Some rep \<Rightarrow>
                            if remindersFail then s1
                            else createPaymentReminders (inv_id row) (cd_dueDate d) rep s1)
              in (Inr (mapInvoiceToResponse row), s2))))"

subsection \<open>getInvoiceById\<close>

definition getInvoiceById :: "bool \<Rightarrow> db \<Rightarrow> nat \<Rightarrow> nat \<Rightarrow> error + invoice" where
  "getInvoiceById storeFails s invoiceId userId =
     (if storeFails then Inl (AppError ''Failed to retrieve invoice'' 500)
      else case find (ownsInvoice invoiceId userId) (invoices s) of
             None \<Rightarrow> Inl (AppError ''Invoice not found'' 404)
           | Some r \<Rightarrow> Inr (mapInvoiceToResponse r))"

subsection \<open>updateInvoice\<close>

text \<open>
  The patch: \<open>None\<close> is a field left \<open>undefined\<close>; for the nullable columns \<open>Some None\<close> is an
  explicit \<open>null\<close>.
\<close>

record invoice_update_data =
  up_clientId :: "nat option"
  up_projectId :: "nat option option"
  up_invoiceNumber :: "string option"
  up_invoiceDate :: "int option"
  up_dueDate :: "int option"
  up_subTotalAmount :: "real option"
  up_gst :: "real option"
  up_totalAmount :: "real option"
  up_currency :: "string option"
  up_totalInstallments :: "nat option"
  up_currentInstallment :: "nat option"
  up_additionalNotes :: "string option"
  up_paymentReminderRepetition :: "string list option option"
  up_status :: "string option"
  up_paymentTerms :: "string option"
  up_advanceAmount :: "real option option"
  up_balanceDue :: "real option option"
  up_balanceDueDate :: "int option option"

text \<open>One assignment of the dynamic \<open>SET\<close> list for each field the patch defines.\<close>

definition setField :: "'a option \<Rightarrow> ('a \<Rightarrow> invoice \<Rightarrow> invoice) \<Rightarrow> (invoice \<Rightarrow> invoice) list" where
  "setField x upd = (case x of None \<Rightarrow> [] | Some v \<Rightarrow> [upd v])"

definition updateFields :: "invoice_update_data \<Rightarrow> (invoice \<Rightarrow> invoice) list" where
  "updateFields p =
     setField (up_clientId p) (\<lambda>v r. r\<lparr>inv_clientId := v\<rparr>)
     @ setField (up_projectId p) (\<lambda>v r. r\<lparr>inv_projectId := v\<rparr>)
     @ setField (up_invoiceNumber p) (\<lambda>v r. r\<lparr>inv_invoiceNumber := Some v\<rparr>)
     @ setField (up_invoiceDate p) (\<lambda>v r. r\<lparr>inv_invoiceDate := v\<rparr>)
     @ setField (up_dueDate p) (\<lambda>v r. r\<lparr>inv_dueDate := v\<rparr>)
     @ setField (up_subTotalAmount p) (\<lambda>v r. r\<lparr>inv_subTotalAmount := v\<rparr>)
     @ setField (up_gst p) (\<lambda>v r. r\<lparr>inv_gst := v\<rparr>)
     @ setField (up_totalAmount p) (\<lambda>v r. r\<lparr>inv_totalAmount := v\<rparr>)
     @ setField (up_currency p) (\<lambda>v r. r\<lparr>inv_currency := v\<rparr>)
     @ setField (up_totalInstallments p) (\<lambda>v r. r\<lparr>inv_totalInstallments := v\<rparr>)
     @ setField (up_currentInstallment p) (\<lambda>v r. r\<lparr>inv_currentInstallment := v\<rparr>)
     @ setField (up_additionalNotes p) (\<lambda>v r. r\<lparr>inv_additionalNotes := v\<rparr>)
     @ setField (up_paymentReminderRepetition p)
         (\<lambda>v r. r\<lparr>inv_paymentReminderRepetition :=
                    (case v of None \<Rightarrow> None | Some xs \<Rightarrow> if xs = [] then None else Some xs)\<rparr>)
     @ setField (up_status p) (\<lambda>v r. r\<lparr>inv_status := v\<rparr>)
     @ setField (up_paymentTerms p) (\<lambda>v r. r\<lparr>inv_paymentTerms := v\<rparr>)
     @ setField (up_advanceAmount p) (\<lambda>v r. r\<lparr>inv_advanceAmount := v\<rparr>)
     @ setField (up_balanceDue p) (\<lambda>v r. r\<lparr>inv_balanceDue := v\<rparr>)
     @ setField (up_balanceDueDate p) (\<lambda>v r. r\<lparr>inv_balanceDueDate := v\<rparr>)"

definition applyUpdate :: "env \<Rightarrow> invoice_update_data \<Rightarrow> invoice \<Rightarrow> invoice" where
  "applyUpdate E p r = (fold (\<lambda>f x. f x) (updateFields p) r)\<lparr>inv_updatedAt := env_now E\<rparr>"

definition validStatus :: "string \<Rightarrow> bool" where
  "validStatus v = (v = ''paid'' \<or> v = ''pending'' \<or> v = ''overdue'')"

text \<open>The reminder block at the end of \<open>updateInvoice\<close>; a throw inside it is swallowed.\<close>

definition updateReminders ::
  "bool \<Rightarrow> bool \<Rightarrow> nat \<Rightarrow> invoice_update_data \<Rightarrow> invoice \<Rightarrow> db \<Rightarrow> db" where
  "updateReminders deleteFails createFails invoiceId p updated s =
     (if \<not> (up_paymentReminderRepetition p = None \<and> up_dueDate p = None)
      then (if deleteFails then s
            else (let s1 = deletePaymentRemindersByInvoiceId invoiceId s in
                  case inv_paymentReminderRepetition updated of
                    None \<Rightarrow> s1
                  | Some rep \<Rightarrow>
                      if createFails then s1
                      else createPaymentReminders invoiceId
                             (case up_dueDate p of None \<Rightarrow> inv_dueDate updated | Some v \<Rightarrow> v)
                             rep s1))
      else s)"

text \<open>
  Faults of a call of \<open>updateInvoice\<close>: a query throws a driver error (the transaction is
  rolled back and the 500 is thrown), or one of the two reminder calls throws.
\<close>

record update_faults =
  uf_store :: bool
  uf_deleteReminders :: bool
  uf_createReminders :: bool

definition noUpdateFaults :: update_faults where
  "noUpdateFaults = \<lparr>uf_store = False, uf_deleteReminders = False, uf_createReminders = False\<rparr>"

definition updateInvoice ::
  "env \<Rightarrow> update_faults \<Rightarrow> nat \<Rightarrow> nat \<Rightarrow> invoice_update_data \<Rightarrow> db \<Rightarrow> (error + invoice) \<times> db" where
  "updateInvoice E F invoiceId userId p s =
     (if uf_store F then (Inl (AppError ''Failed to update invoice'' 500), s)
      else
        case find (ownsInvoice invoiceId userId) (invoices s) of
          None \<Rightarrow> (Inl (AppError ''Invoice not found'' 404), s)
        | Some existing \<Rightarrow>
            (let s1 = (if inv_status existing = ''paid'' \<and>
                          (up_status p = Some ''pending'' \<or> up_status p = Some ''overdue'')
                       then deletePaymentsByInvoiceId invoiceId userId s else s)
             in
             if natOrNull (up_clientId p) \<noteq> None \<and>
                \<not> list_ex (\<lambda>c. Some (cl_id c) = up_clientId p \<and> cl_userId c = userId)
                     (master_clients s1)
             then (Inl (AppError ''Client not found'' 404), s)
             else if (case up_projectId p of
                        Some (Some pid) \<Rightarrow>
                          \<not> list_ex (\<lambda>q. pr_id q = pid \<and> pr_userId q = userId) (projects s1)
                      | _ \<Rightarrow> False)
             then (Inl (AppError ''Project not found'' 404), s)
             else if (case up_status p of Some v \<Rightarrow> \<not> validStatus v | None \<Rightarrow> False)
             then (Inl (AppError ''Invalid status. Must be one of: paid, pending, overdue'' 400), s)
             else if updateFields p = []
             then (Inl (AppError ''No fields to update'' 400), s)
             else
               (let updated0 = applyUpdate E p existing;
                    s2 = s1\<lparr>invoices := map (\<lambda>r. if ownsInvoice invoiceId userId r
                                                    then applyUpdate E p r else r) (invoices s1)\<rparr>;
                    auto = (up_dueDate p \<noteq> None \<and> up_status p = None \<and>
                            inv_status updated0 \<noteq> ''paid'');
                    newStatus = statusForDueDate E (case up_dueDate p of Some v \<Rightarrow> v | None \<Rightarrow> 0);
                    updated = (if auto then updated0\<lparr>inv_status := newStatus\<rparr> else updated0);
                    s3 = (if auto
                          then s2\<lparr>invoices := map (\<lambda>r. if inv_id r = invoiceId
                                                          then r\<lparr>inv_status := newStatus\<rparr> else r)
                                                 (invoices s2)\<rparr>
                          else s2);
                    s4 = updateReminders (uf_deleteReminders F) (uf_createReminders F)
                           invoiceId p updated s3
                in (Inr (mapInvoiceToResponse updated), s4))))"

subsection \<open>deleteInvoice\<close>

text \<open>
  The row goes first (its items with it, by the cascade the source's comment names), then
  the PDF, whose deletion may throw (\<open>blobFails\<close>) without failing the call.
\<close>

definition deleteInvoice ::
  "bool \<Rightarrow> error option \<Rightarrow> nat \<Rightarrow> nat \<Rightarrow> db \<times> blob_store \<Rightarrow> (error + unit) \<times> db \<times> blob_store" where
  "deleteInvoice storeFails blobFails invoiceId userId st =
     (case st of (s, bs) \<Rightarrow>
        if storeFails then (Inl (AppError ''Failed to delete invoice'' 500), s, bs)
        else
          case find (ownsInvoice invoiceId userId) (invoices s) of
            None \<Rightarrow> (Inl (AppError ''Invoice not found'' 404), s, bs)
          | Some r \<Rightarrow>
              (let s1 = s\<lparr>invoices := filter (\<lambda>x. \<not> ownsInvoice invoiceId userId x) (invoices s),
                          invoice_items := filter (\<lambda>x. ii_invoiceId x \<noteq> invoiceId)
                                             (invoice_items s)\<rparr>;
                   bs1 = (if truthy (invoice_file_name r)
                          then (case deleteFile blobFails bs
                                       (''Invoices/'' @ show_nat userId @ ''/''
                                          @ the (invoice_file_name r)) of
                                  Inl err \<Rightarrow> bs
                                | Inr b \<Rightarrow> b)
                          else bs)
               in (Inr (), s1, bs1)))"

subsection \<open>generateInvoicePdf and updateInvoicePdfFilename\<close>

text \<open>
  What drawing the document does: it ends the document, whose \<open>end\<close> event resolves the
  promise with the bytes; or a statement of the drawing throws; or the document emits an
  \<open>error\<close> event, whose handler is \<open>reject\<close>.
\<close>

datatype drawing = Drawn string | Threw error | Emitted error

text \<open>
  \<open>generateInvoicePdf\<close> returns a promise made with \<open>new Promise(async (resolve, reject) => ...)\<close>.
  The value here is how that promise settles: \<open>Some (Inr bytes)\<close> resolved,
  \<open>Some (Inl e)\<close> rejected, \<open>None\<close> never settled.

  \<^item> \<open>pool.connect()\<close> is awaited before the try block. When it throws (\<open>connectFails\<close>) the
    executor's own promise is rejected and nobody calls \<open>resolve\<close> or \<open>reject\<close>.
  \<^item> A query that throws (\<open>queryFails\<close>) and the \<open>Invoice not found\<close> of an empty join are
    thrown inside the try block while the connection is held: the catch block releases the
    connection and rejects.
  \<^item> The drawing starts after \<open>client.release()\<close>. When it throws, the catch block releases
    the connection a second time; the pool answers a second release by throwing, so that
    \<open>reject\<close> is not reached.
\<close>

definition generateInvoicePdf ::
  "bool \<Rightarrow> error option \<Rightarrow> (invoice \<Rightarrow> drawing) \<Rightarrow> db \<Rightarrow> nat \<Rightarrow> nat
     \<Rightarrow> (error + string) option" where
  "generateInvoicePdf connectFails queryFails render s invoiceId userId =
     (if connectFails then None
      else
        case queryFails of
          Some e \<Rightarrow> Some (Inl e)
        | None \<Rightarrow>
            (case find (\<lambda>r. ownsInvoice invoiceId userId r \<and>
                             list_ex (\<lambda>u. usr_id u = inv_userId r) (users s) \<and>
                             list_ex (\<lambda>c. cl_id c = inv_clientId r) (master_clients s))
                    (invoices s) of
               None \<Rightarrow> Some (Inl (AppError ''Invoice not found'' 404))
             | Some r \<Rightarrow>
                 (case render r of
                    Drawn pdf \<Rightarrow> Some (Inr pdf)
                  | Threw e \<Rightarrow> None
                  | Emitted e \<Rightarrow> Some (Inl e))))"

definition updateInvoicePdfFilename ::
  "env \<Rightarrow> error option \<Rightarrow> nat \<Rightarrow> nat \<Rightarrow> string \<Rightarrow> db \<Rightarrow> error + db" where
  "updateInvoicePdfFilename E fails invoiceId userId fileName s =
     (case fails of
        Some e \<Rightarrow> Inl e
      | None \<Rightarrow>
          if list_ex (ownsInvoice invoiceId userId) (invoices s)
          then Inr (s\<lparr>invoices := map (\<lambda>r. if ownsInvoice invoiceId userId r
                                             then r\<lparr>invoice_file_name := Some fileName,
                                                    inv_updatedAt := env_now E\<rparr>
                                             else r) (invoices s)\<rparr>)
          else Inl (AppError ''Invoice not found'' 404))"

subsection \<open>Scenarios and wordings for the invoice service\<close>

text \<open>
  The status rule in the spec's words: overdue when the local day of the due date is
  before the local day of the call, pending otherwise.
\<close>

definition derivedStatus :: "env \<Rightarrow> int \<Rightarrow> string" where
  "derivedStatus E due =
     (if localDay (env_tz E) due < localDay (env_tz E) (env_now E) then ''overdue'' else ''pending'')"

text \<open>
  The due date reaches \<open>createInvoice\<close> and \<open>updateInvoice\<close> as a \<open>Date\<close> or as a string
  that \<open>new Date\<close> parses. \<open>dateOnly day\<close> is the instant \<open>new Date\<close> gives for the
  date-only string \<open>YYYY-MM-DD\<close> of a day: midnight UTC of that day. It is the form in which
  the milestone run passes its dates.
\<close>

definition dateOnly :: "int \<Rightarrow> int" where
  "dateOnly day = day * msPerDay"

text \<open>
  The checks a call has to pass before the row is written: the user, the client of the
  user, the project of the user when one is given, every item (\<open>createInvoice\<close>); the new
  client and the new project when the patch names one (\<open>updateInvoice\<close>).
\<close>

definition createAccepted :: "invoice_create_data \<Rightarrow> db \<Rightarrow> bool" where
  "createAccepted d s =
     (list_ex (\<lambda>u. usr_id u = cd_userId d) (users s) \<and>
      list_ex (\<lambda>c. cl_id c = cd_clientId d \<and> cl_userId c = cd_userId d) (master_clients s) \<and>
      (natOrNull (cd_projectId d) = None \<or>
       list_ex (\<lambda>p. Some (pr_id p) = cd_projectId d \<and> pr_userId p = cd_userId d) (projects s)) \<and>
      list_all (itemKnown s (cd_userId d)) (itemsOf d))"

definition updateAccepted :: "nat \<Rightarrow> invoice_update_data \<Rightarrow> db \<Rightarrow> bool" where
  "updateAccepted userId p s =
     ((natOrNull (up_clientId p) = None \<or>
       list_ex (\<lambda>c. Some (cl_id c) = up_clientId p \<and> cl_userId c = userId) (master_clients s)) \<and>
      (case up_projectId p of
         Some (Some pid) \<Rightarrow> list_ex (\<lambda>q. pr_id q = pid \<and> pr_userId q = userId) (projects s)
       | _ \<Rightarrow> True))"

text \<open>A patch that defines none of the fields \<open>updateInvoice\<close> looks at.\<close>

definition emptyPatch :: invoice_update_data where
  "emptyPatch = \<lparr>up_clientId = None, up_projectId = None, up_invoiceNumber = None,
     up_invoiceDate = None, up_dueDate = None, up_subTotalAmount = None, up_gst = None,
     up_totalAmount = None, up_currency = None, up_totalInstallments = None,
     up_currentInstallment = None, up_additionalNotes = None,
     up_paymentReminderRepetition = None, up_status = None, up_paymentTerms = None,
     up_advanceAmount = None, up_balanceDue = None, up_balanceDueDate = None\<rparr>"

text \<open>
  A store with users 7 and 8; user 7 owns clients 21 and 22, project 4, item 2 and the
  paid invoice 5. The clock stands at 1700000000000 ms in a zone five and a half hours
  east of UTC.
\<close>

definition exEnv :: env where
  "exEnv = \<lparr>env_now = 1700000000000, env_tz = 19800000,
             env_numberDefault = (\<lambda>n. Some (''INV-'' @ show_nat n))\<rparr>"

definition exInvoice :: invoice where
  "exInvoice =
     \<lparr>inv_id = 5, inv_userId = 7, inv_clientId = 21, inv_projectId = None,
      inv_invoiceNumber = Some ''INV-5'', inv_invoiceDate = 1699000000000,
      inv_dueDate = 1701000000000, inv_subTotalAmount = 100, inv_gst = 18,
      inv_totalAmount = 118, inv_currency = ''USD'', inv_totalInstallments = 1,
      inv_currentInstallment = 1, inv_additionalNotes = ''Thank you for your business'',
      inv_paymentReminderRepetition = Some [''3''], inv_status = ''paid'',
      inv_paymentTerms = ''full'', inv_advanceAmount = None, inv_balanceDue = None,
      inv_balanceDueDate = None, inv_createdAt = 1699000000000, inv_updatedAt = 1699000000000,
      invoice_file_name = Some ''INV-5.pdf''\<rparr>"

definition exDb :: db where
  "exDb =
     \<lparr>users = [\<lparr>usr_id = 7, usr_currency = Some ''USD''\<rparr>, \<lparr>usr_id = 8, usr_currency = None\<rparr>],
      master_clients = [\<lparr>cl_id = 21, cl_userId = 7\<rparr>, \<lparr>cl_id = 22, cl_userId = 7\<rparr>],
      projects = [\<lparr>pr_id = 4, pr_userId = 7\<rparr>],
      items = [\<lparr>it_id = 2, it_userId = 7, it_name = ''Design''\<rparr>],
      invoices = [exInvoice],
      invoice_items = [],
      payments = [\<lparr>pay_invoiceId = 5, pay_userId = 7, pay_amount = 118\<rparr>],
      payment_reminders = [\<lparr>rem_invoiceId = 5, rem_dueDate = 1701000000000, rem_repetition = [''3'']\<rparr>],
      agreement_payment_milestones = [],
      agreement_payment_terms = [],
      agreements = [],
      next_invoice_id = 6,
      next_item_id = 3\<rparr>"

definition exCreate :: invoice_create_data where
  "exCreate =
     \<lparr>cd_userId = 7, cd_clientId = 21, cd_projectId = Some 4, cd_invoiceNumber = None,
      cd_invoiceDate = 1699000000000, cd_dueDate = 1699800000000,
      cd_subTotalAmount = None, cd_gst = Some 18, cd_totalAmount = None,
      cd_items = Some [\<lparr>itemsId = 2, quantity = 2, unitPrice = 50\<rparr>],
      cd_currency = None, cd_totalInstallments = None, cd_currentInstallment = None,
      cd_additionalNotes = None, cd_paymentReminderRepetition = None, cd_paymentTerms = None,
      cd_advanceAmount = None, cd_balanceDue = None, cd_balanceDueDate = None\<rparr>"

definition exPatch :: invoice_update_data where
  "exPatch = emptyPatch\<lparr>up_dueDate := Some 1699800000000\<rparr>"

text \<open>
  The store with invoice 5 still pending, and the same clock in a zone five hours west of
  UTC, where the local day is 19675 (2023-11-14).
\<close>

definition exPendingDb :: db where
  "exPendingDb = exDb\<lparr>invoices := [exInvoice\<lparr>inv_status := ''pending''\<rparr>]\<rparr>"

definition exWest :: env where
  "exWest = exEnv\<lparr>env_tz := - 18000000\<rparr>"

text \<open>The 404 of the invoice service.\<close>

definition notFound :: error where
  "notFound = AppError ''Invoice not found'' 404"

section \<open>Milestone invoice service\<close>

subsection \<open>getOrCreateItemByName\<close>

text \<open>\<open>toLowerCase\<close> on the ASCII letters.\<close>

definition lowerChar :: "char \<Rightarrow> char" where
  "lowerChar c =
     (case map_of (zip ''ABCDEFGHIJKLMNOPQRSTUVWXYZ'' ''abcdefghijklmnopqrstuvwxyz'') c of
        None \<Rightarrow> c
      | Some l \<Rightarrow> l)"

definition toLowerCase :: "string \<Rightarrow> string" where
  "toLowerCase s = map lowerChar s"

text \<open>
  Modelled from the spec: \<open>getItemsByUserId\<close> and \<open>createItem\<close> (services/itemService) are
  absent. The first returns the item rows of the user, the second adds a row with a fresh
  id for the user (spec 4.5, step 4: resolve or create the category named after the
  service type). \<open>fails\<close> is the error thrown when one of the two calls throws; the catch
  block of \<open>getOrCreateItemByName\<close> logs it and throws it again.
\<close>

definition getItemsByUserId :: "db \<Rightarrow> nat \<Rightarrow> item_row list" where
  "getItemsByUserId s userId = filter (\<lambda>r. it_userId r = userId) (items s)"

definition createItem :: "string \<Rightarrow> nat \<Rightarrow> db \<Rightarrow> nat \<times> db" where
  "createItem itemName userId s =
     (next_item_id s,
      s\<lparr>items := items s @ [\<lparr>it_id = next_item_id s, it_userId = userId, it_name = itemName\<rparr>],
        next_item_id := Suc (next_item_id s)\<rparr>)"

definition getOrCreateItemByName ::
  "error option \<Rightarrow> nat \<Rightarrow> string \<Rightarrow> db \<Rightarrow> error + (nat \<times> db)" where
  "getOrCreateItemByName fails userId itemName s =
     (case fails of
        Some e \<Rightarrow> Inl e
      | None \<Rightarrow>
          (case find (\<lambda>r. toLowerCase (it_name r) = toLowerCase itemName)
                  (getItemsByUserId s userId) of
             Some existingItem \<Rightarrow> Inr (it_id existingItem, s)
           | None \<Rightarrow> Inr (createItem itemName userId s)))"

subsection \<open>The run and what surrounds it\<close>

text \<open>
  A \<open>DATE\<close> column as the driver hands it to the code: the string of a day (its day
  number) or a \<open>Date\<close> object (its instant).
\<close>

datatype js_date = DateString int | DateObject int

text \<open>
  What is outside the function: \<open>pool.connect()\<close>, awaited before the try block, and the
  batch query may throw; \<open>clients_of\<close> is \<open>getClientsByProjectId(projectId, userId)\<close> of the
  absent services/projectClientService (the ids of the clients it returns, or the error it
  throws); the other fields make a call throw, keyed by the milestone, the client or the
  invoice it is made for; \<open>pdfConnect_fails\<close>, \<open>pdfQuery_fails\<close> and \<open>render\<close> are the
  connection, the queries and the drawing of \<open>generateInvoicePdf\<close>; \<open>pgDate\<close> is the
  driver's rendering of a \<open>DATE\<close>.
\<close>

record batch_env =
  connect_fails :: "error option"
  query_fails :: "error option"
  clients_of :: "nat \<Rightarrow> nat \<Rightarrow> error + nat list"
  item_fails :: "nat \<Rightarrow> error option"
  create_fails :: "nat \<Rightarrow> nat \<Rightarrow> bool"
  pdfConnect_fails :: "nat \<Rightarrow> bool"
  pdfQuery_fails :: "nat \<Rightarrow> error option"
  render :: "invoice \<Rightarrow> drawing"
  pdfUpload_fails :: "nat \<Rightarrow> error option"
  pdfPatch_fails :: "nat \<Rightarrow> error option"
  mark_fails :: "nat \<Rightarrow> error option"
  pgDate :: "int \<Rightarrow> js_date"

record result =
  processed :: nat
  created :: nat
  failed :: nat
  errors :: "(nat \<times> string) list"

text \<open>A row of the batch query: a milestone joined with its payment term and agreement.\<close>

record due_milestone =
  dm_id :: nat
  dm_description :: "string option"
  dm_amount :: real
  dm_milestoneDate :: int
  dm_agreementId :: nat
  dm_projectId :: nat
  dm_userId :: nat
  dm_serviceType :: string

definition isDue :: "int \<Rightarrow> milestone_row \<Rightarrow> bool" where
  "isDue today m =
     (apm_milestoneDate m = today \<and> (apm_status m = Some ''pending'' \<or> apm_status m = None))"

definition joinMilestone :: "db \<Rightarrow> milestone_row \<Rightarrow> due_milestone list" where
  "joinMilestone s m =
     concat (map (\<lambda>t. map (\<lambda>a. \<lparr>dm_id = apm_id m, dm_description = apm_description m,
                                   dm_amount = apm_amount m,
                                   dm_milestoneDate = apm_milestoneDate m,
                                   dm_agreementId = apt_agreementId t,
                                   dm_projectId = ag_projectId a, dm_userId = ag_userId a,
                                   dm_serviceType = ag_serviceType a\<rparr>)
                           (filter (\<lambda>a. ag_id a = apt_agreementId t) (agreements s)))
                 (filter (\<lambda>t. apt_id t = apm_agreementPaymentTermId m)
                    (agreement_payment_terms s)))"

definition dueMilestones :: "db \<Rightarrow> int \<Rightarrow> due_milestone list" where
  "dueMilestones s today =
     sort_key dm_id
       (concat (map (joinMilestone s) (filter (isDue today) (agreement_payment_milestones s))))"

definition markCreated :: "error option \<Rightarrow> nat \<Rightarrow> db \<Rightarrow> error + db" where
  "markCreated fails milestoneId s =
     (case fails of
        Some e \<Rightarrow> Inl e
      | None \<Rightarrow>
          Inr (s\<lparr>agreement_payment_milestones :=
                   map (\<lambda>m. if apm_id m = milestoneId then m\<lparr>apm_status := Some ''created''\<rparr> else m)
                     (agreement_payment_milestones s)\<rparr>))"

text \<open>The state a run threads through its loops.\<close>

record run =
  summary :: result
  store :: db
  artifacts :: blob_store

text \<open>
  A \<open>for ... of\<close> loop whose body awaits: the body is run for each element in turn on the
  state the previous one left; when an \<open>await\<close> of the body never returns (\<open>None\<close>), neither
  does the loop.
\<close>

fun forOf :: "('a \<Rightarrow> 's \<Rightarrow> 's option) \<Rightarrow> 'a list \<Rightarrow> 's \<Rightarrow> 's option" where
  "forOf body [] st = Some st"
| "forOf body (x # xs) st =
     (case body x st of
        None \<Rightarrow> None
      | Some st1 \<Rightarrow> forOf body xs st1)"

definition invoiceDay :: "batch_env \<Rightarrow> due_milestone \<Rightarrow> int" where
  "invoiceDay B m =
     (case pgDate B (dm_milestoneDate m) of
        DateString d \<Rightarrow> d
      | DateObject t \<Rightarrow> t div msPerDay)"

definition milestoneInvoiceData ::
  "batch_env \<Rightarrow> due_milestone \<Rightarrow> nat \<Rightarrow> nat \<Rightarrow> invoice_create_data" where
  "milestoneInvoiceData B m itemId clientId =
     \<lparr>cd_userId = dm_userId m,
      cd_clientId = clientId,
      cd_projectId = Some (dm_projectId m),
      cd_invoiceNumber = None,
      cd_invoiceDate = invoiceDay B m * msPerDay,
      cd_dueDate = invoiceDay B m * msPerDay,
      cd_subTotalAmount = Some (dm_amount m),
      cd_gst = Some 0,
      cd_totalAmount = Some (dm_amount m),
      cd_items = Some [\<lparr>itemsId = itemId, quantity = 1, unitPrice = dm_amount m\<rparr>],
      cd_currency = None,
      cd_totalInstallments = None,
      cd_currentInstallment = None,
      cd_additionalNotes =
        Some (orElse (dm_description m) (''Invoice for milestone: '' @ dm_serviceType m)),
      cd_paymentReminderRepetition = None,
      cd_paymentTerms = Some ''full'',
      cd_advanceAmount = None,
      cd_balanceDue = None,
      cd_balanceDueDate = None\<rparr>"

text \<open>
  The inner try block of a client's iteration: render, upload, patch. It yields the error
  thrown inside it, if any; the catch block that follows only logs that error. While the
  promise of \<open>generateInvoicePdf\<close> does not settle the block does not end.
\<close>

definition generateAndUploadPdf ::
  "env \<Rightarrow> batch_env \<Rightarrow> invoice \<Rightarrow> nat \<Rightarrow> db \<times> blob_store
     \<Rightarrow> ((error + unit) \<times> db \<times> blob_store) option" where
  "generateAndUploadPdf E B invoice userId st =
     (case st of (s, bs) \<Rightarrow>
        case generateInvoicePdf (pdfConnect_fails B (inv_id invoice))
               (pdfQuery_fails B (inv_id invoice)) (render B) s (inv_id invoice) userId of
          None \<Rightarrow> None
        | Some (Inl e) \<Rightarrow> Some (Inl e, s, bs)
        | Some (Inr pdfBuffer) \<Rightarrow>
            (let fileName = (case inv_invoiceNumber invoice of None \<Rightarrow> ''null'' | Some n \<Rightarrow> n)
                              @ ''.pdf''
             in case uploadFile (pdfUpload_fails B (inv_id invoice)) bs pdfBuffer fileName INVOICE
                       userId ''application/pdf'' None of
                  Inl e \<Rightarrow> Some (Inl e, s, bs)
                | Inr (blobPath, bs1) \<Rightarrow>
                    (case updateInvoicePdfFilename E (pdfPatch_fails B (inv_id invoice))
                            (inv_id invoice) userId fileName s of
                       Inl e \<Rightarrow> Some (Inl e, s, bs1)
                     | Inr s1 \<Rightarrow> Some (Inr (), s1, bs1))))"

text \<open>One iteration of the loop over the clients of a milestone.\<close>

definition processClient ::
  "env \<Rightarrow> batch_env \<Rightarrow> due_milestone \<Rightarrow> nat \<Rightarrow> nat \<Rightarrow> run \<Rightarrow> run option" where
  "processClient E B m itemId clientId st =
     (case createInvoice E (create_fails B (dm_id m) clientId) False
             (milestoneInvoiceData B m itemId clientId) (store st) of
        (Inl e, s1) \<Rightarrow>
          Some \<lparr>summary = (summary st)
                  \<lparr>failed := failed (summary st) + 1,
                   errors := errors (summary st)
                     @ [(dm_id m, ''Failed to create invoice for client '' @ show_nat clientId
                                    @ '': '' @ message e)]\<rparr>,
                store = s1, artifacts = artifacts st\<rparr>
      | (Inr invoice, s1) \<Rightarrow>
          (case generateAndUploadPdf E B invoice (dm_userId m) (s1, artifacts st) of
             None \<Rightarrow> None
           | Some (pdfOutcome, s2, bs2) \<Rightarrow>
               Some \<lparr>summary = (summary st)\<lparr>created := created (summary st) + 1\<rparr>,
                     store = s2, artifacts = bs2\<rparr>))"

definition recordFailure :: "nat \<Rightarrow> string \<Rightarrow> run \<Rightarrow> run" where
  "recordFailure milestoneId msg st =
     st\<lparr>summary := (summary st)
          \<lparr>failed := failed (summary st) + 1,
           errors := errors (summary st) @ [(milestoneId, msg)]\<rparr>\<rparr>"

text \<open>
  The try block of an iteration of the loop over the due milestones, with its catch block.
  The two \<open>continue\<close> statements (no clients, item not resolved) and the catch block
  (client lookup or status update threw) all leave the iteration without reaching or
  completing the status update. \<open>markMilestone\<close> is the status update after the loop over
  the clients, with what the catch block does when it throws.
\<close>

definition markMilestone :: "batch_env \<Rightarrow> due_milestone \<Rightarrow> run \<Rightarrow> run" where
  "markMilestone B m st1 =
     (case markCreated (mark_fails B (dm_id m)) (dm_id m) (store st1) of
        Inl e \<Rightarrow> recordFailure (dm_id m) (orElse (Some (message e)) ''Unknown error'') st1
      | Inr s2 \<Rightarrow> st1\<lparr>store := s2\<rparr>)"

definition tryMilestone ::
  "env \<Rightarrow> batch_env \<Rightarrow> due_milestone \<Rightarrow> run \<Rightarrow> run option" where
  "tryMilestone E B m st =
     (case clients_of B (dm_projectId m) (dm_userId m) of
        Inl e \<Rightarrow> Some (recordFailure (dm_id m) (orElse (Some (message e)) ''Unknown error'') st)
      | Inr clients \<Rightarrow>
          if clients = []
          then Some (recordFailure (dm_id m)
                       (''No clients found for project '' @ show_nat (dm_projectId m)) st)
          else
            (case getOrCreateItemByName (item_fails B (dm_id m)) (dm_userId m)
                    (dm_serviceType m) (store st) of
               Inl e \<Rightarrow>
                 Some (recordFailure (dm_id m) (''Failed to get/create item: '' @ message e) st)
             | Inr (itemId, s1) \<Rightarrow>
                 (case forOf (processClient E B m itemId) clients (st\<lparr>store := s1\<rparr>) of
                    None \<Rightarrow> None
                  | Some st1 \<Rightarrow> Some (markMilestone B m st1))))"

text \<open>\<open>result.processed++\<close>, then the try block with its catch.\<close>

definition processMilestone ::
  "env \<Rightarrow> batch_env \<Rightarrow> due_milestone \<Rightarrow> run \<Rightarrow> run option" where
  "processMilestone E B m st =
     tryMilestone E B m
       (st\<lparr>summary := (summary st)\<lparr>processed := processed (summary st) + 1\<rparr>\<rparr>)"

definition emptyResult :: result where
  "emptyResult = \<lparr>processed = 0, created = 0, failed = 0, errors = []\<rparr>"

text \<open>
  The function: what the caller gets (the summary, or the error thrown), the store and
  the artifacts it leaves; \<open>None\<close> when the call never returns. An error of
  \<open>pool.connect()\<close> is thrown as it is; an error of the batch query is caught by the outer
  catch block and wrapped.
\<close>

definition processMilestoneInvoices ::
  "env \<Rightarrow> batch_env \<Rightarrow> db \<times> blob_store \<Rightarrow> ((error + result) \<times> db \<times> blob_store) option" where
  "processMilestoneInvoices E B st =
     (case st of (s, bs) \<Rightarrow>
        case connect_fails B of
          Some e \<Rightarrow> Some (Inl e, s, bs)
        | None \<Rightarrow>
            (case query_fails B of
               Some e \<Rightarrow>
                 Some (Inl (AppError (''Failed to process milestone invoices: '' @ message e) 500),
                       s, bs)
             | None \<Rightarrow>
                 (case forOf (processMilestone E B)
                         (dueMilestones s (localDay (env_tz E) (env_now E)))
                         \<lparr>summary = emptyResult, store = s, artifacts = bs\<rparr> of
                    None \<Rightarrow> None
                  | Some fin \<Rightarrow> Some (Inr (summary fin), store fin, artifacts fin))))"

subsection \<open>Scenarios of the batch run\<close>

text \<open>
  The store of the invoice scenarios with one agreement of user 7 for project 4 and one
  pending milestone, 11, due on the local day of the clock (day 19676). The project has
  clients 21 and 22, or none; nothing fails unless a scenario says so.
\<close>

definition exBatchDb :: db where
  "exBatchDb =
     exDb\<lparr>agreement_payment_milestones :=
            [\<lparr>apm_id = 11, apm_agreementPaymentTermId = 31, apm_description = None,
              apm_amount = 500, apm_milestoneDate = 19676, apm_status = Some ''pending''\<rparr>],
          agreement_payment_terms := [\<lparr>apt_id = 31, apt_agreementId = 41\<rparr>],
          agreements := [\<lparr>ag_id = 41, ag_projectId = 4, ag_userId = 7,
                          ag_serviceType = ''design''\<rparr>]\<rparr>"

definition exBatch :: batch_env where
  "exBatch =
     \<lparr>connect_fails = None,
      query_fails = None,
      clients_of = (\<lambda>p u. Inr [21, 22]),
      item_fails = (\<lambda>m. None),
      create_fails = (\<lambda>m c. False),
      pdfConnect_fails = (\<lambda>i. False),
      pdfQuery_fails = (\<lambda>i. None),
      render = (\<lambda>r. Drawn ''%PDF''),
      pdfUpload_fails = (\<lambda>i. None),
      pdfPatch_fails = (\<lambda>i. None),
      mark_fails = (\<lambda>m. None),
      pgDate = DateString\<rparr>"

definition exNoClients :: batch_env where
  "exNoClients = exBatch\<lparr>clients_of := (\<lambda>p u. Inr [])\<rparr>"

definition exUploadFails :: batch_env where
  "exUploadFails = exBatch\<lparr>pdfUpload_fails := (\<lambda>i. Some (Error ''storage unavailable''))\<rparr>"

definition exPatchFails :: batch_env where
  "exPatchFails = exBatch\<lparr>pdfPatch_fails := (\<lambda>i. Some (Error ''connection terminated''))\<rparr>"

definition exDrawThrows :: batch_env where
  "exDrawThrows = exBatch\<lparr>render := (\<lambda>r. Threw (Error ''font missing''))\<rparr>"

text \<open>The same store with milestone 11 due on day 19675, the local day of the clock of \<open>exWest\<close>.\<close>

definition exWestDb :: db where
  "exWestDb =
     exBatchDb\<lparr>agreement_payment_milestones :=
                 [\<lparr>apm_id = 11, apm_agreementPaymentTermId = 31, apm_description = None,
                   apm_amount = 500, apm_milestoneDate = 19675, apm_status = Some ''pending''\<rparr>]\<rparr>"

subsection \<open>A store with its PDF pointers disregarded\<close>

text \<open>
  \<open>erasePdf\<close> resets what \<open>updateInvoicePdfFilename\<close> writes into an invoice row;
  \<open>forgetPdf\<close> does so for every invoice of a store. Two states of a run are
  \<open>samePdfFree\<close> when their summaries are equal and their stores are equal up to those
  fields. \<open>otherPdf\<close> replaces the queries, the drawing, the upload and the patch of the PDF
  steps of a run.
\<close>

definition erasePdf :: "invoice \<Rightarrow> invoice" where
  "erasePdf r = r\<lparr>invoice_file_name := None, inv_updatedAt := inv_createdAt r\<rparr>"

definition forgetPdf :: "db \<Rightarrow> db" where
  "forgetPdf s = s\<lparr>invoices := map erasePdf (invoices s)\<rparr>"

definition samePdfFree :: "run \<Rightarrow> run \<Rightarrow> bool" where
  "samePdfFree st st' = (summary st = summary st' \<and> forgetPdf (store st) = forgetPdf (store st'))"

definition otherPdf ::
  "batch_env \<Rightarrow> (nat \<Rightarrow> error option) \<Rightarrow> (invoice \<Rightarrow> drawing) \<Rightarrow> (nat \<Rightarrow> error option)
     \<Rightarrow> (nat \<Rightarrow> error option) \<Rightarrow> batch_env" where
  "otherPdf B q r u p =
     B\<lparr>pdfQuery_fails := q, render := r, pdfUpload_fails := u, pdfPatch_fails := p\<rparr>"

text \<open>The drawing ends: it does not throw.\<close>

definition ends :: "drawing \<Rightarrow> bool" where
  "ends d = (case d of Threw e \<Rightarrow> False | _ \<Rightarrow> True)"

text \<open>
  The row the batch query returns for milestone 11, the state of the run when the loop
  over its clients starts, and the invoice and store after \<open>createInvoice\<close> for client 21.
\<close>

definition exDue :: due_milestone where
  "exDue = \<lparr>dm_id = 11, dm_description = None, dm_amount = 500, dm_milestoneDate = 19676,
     dm_agreementId = 41, dm_projectId = 4, dm_userId = 7, dm_serviceType = ''design''\<rparr>"

definition exRun :: run where
  "exRun = \<lparr>summary = emptyResult\<lparr>processed := 1\<rparr>, store = exBatchDb, artifacts = Map.empty\<rparr>"

text \<open>The file name the batch run gives the PDF of an invoice.\<close>

definition pdfNameOf :: "invoice \<Rightarrow> string" where
  "pdfNameOf resp = (case inv_invoiceNumber resp of None \<Rightarrow> ''null'' | Some n \<Rightarrow> n) @ ''.pdf''"

definition exResp :: invoice where
  "exResp = mapInvoiceToResponse
     (newInvoiceRow exEnv (milestoneInvoiceData exBatch exDue 2 21) exBatchDb)"

definition exAfterCreate :: db where
  "exAfterCreate = snd (createInvoice exEnv False False
     (milestoneInvoiceData exBatch exDue 2 21) exBatchDb)"

subsection \<open>The milestone table after a run\<close>

text \<open>
  \<open>markRows\<close> is the status update of one milestone; \<open>getsMarked\<close> says that the iteration
  of a milestone reaches and completes that update (clients found, item resolved, update
  not failing); \<open>markAll\<close> marks the rows of all such milestones of a list.
\<close>

definition markRows :: "nat \<Rightarrow> milestone_row list \<Rightarrow> milestone_row list" where
  "markRows i rows = map (\<lambda>m. if apm_id m = i then m\<lparr>apm_status := Some ''created''\<rparr> else m) rows"

definition getsMarked :: "batch_env \<Rightarrow> due_milestone \<Rightarrow> bool" where
  "getsMarked B m =
     ((case clients_of B (dm_projectId m) (dm_userId m) of Inl e \<Rightarrow> False | Inr cs \<Rightarrow> cs \<noteq> []) \<and>
      item_fails B (dm_id m) = None \<and> mark_fails B (dm_id m) = None)"

definition agreementTables :: "db \<Rightarrow> milestone_row list \<times> payment_term_row list \<times> agreement_row list" where
  "agreementTables s = (agreement_payment_milestones s, agreement_payment_terms s, agreements s)"

definition markAll :: "batch_env \<Rightarrow> due_milestone list \<Rightarrow> milestone_row list \<Rightarrow> milestone_row list" where
  "markAll B ms rows =
     map (\<lambda>r. if list_ex (\<lambda>m. getsMarked B m \<and> dm_id m = apm_id r) ms
               then r\<lparr>apm_status := Some ''created''\<rparr> else r) rows"


section \<open>Decimal rendering is injective\<close>

lemma digit_val_digit: "d < 10 \<Longrightarrow> digit_val (digit d) = d"
proof -
  assume "d < 10"
  then have "d \<in> {0, 1, 2, 3, 4, 5, 6, 7, 8, 9}" by auto
  then show ?thesis
    by (auto simp: digit_def digit_val_def)
qed

lemma read_nat_show_nat: "read_nat (show_nat n) = n"
proof (induction n rule: show_nat.induct)
  case (1 n)
  show ?case
  proof (cases "n < 10")
    case True
    then show ?thesis
      by (simp add: show_nat.simps[of n] read_nat_def digit_val_digit)
  next
    case False
    with 1 have "read_nat (show_nat (n div 10)) = n div 10" by simp
    with False show ?thesis
      by (simp add: show_nat.simps[of n] read_nat_def digit_val_digit)
  qed
qed

lemma show_nat_inj: "show_nat n = show_nat m \<longleftrightarrow> n = m"
  by (metis read_nat_show_nat)

section \<open>The upload handlers\<close>

lemmas ex_defs = exUpload_def exRequest_def exExpense_def exWorld_def patchFault_def noFaults_def
  exPdfUpload_def exPdfRequest_def exExpense2_def exWorld2_def

lemmas route_defs = postAttachment_def replaceAttachment_def postPdf_def replacePdf_def
  getExpenseById_def updateExpenseAttachmentFilename_def updateExpensePdfFilename_def
  uploadFile_def deleteFile_def blobPathOf_def kindDir_def ownsExpense_def
  attachmentName_def attachmentExtension_def pdfName_def truthy_def orElse_def endsWith_def
  startsWith_def attachmentResolves_def pdfResolves_def show_nat.simps digit_def Let_def

text \<open>
  C1 (the code departs from the claim). The claim: the old artifact is deleted only after
  the record has been patched, so the record's pointer resolves at every observable point,
  also when a step fails. The attachment handler deletes the old object before it patches
  the record. Here the attachment of expense 3 resolves before the request; the patch is
  made to fail; the handler rolls the new object back and hands the error on, and the row,
  which still names \<open>B1_1000.jpg\<close>, points at nothing.
\<close>

theorem attachment_patch_failure_dangles:
  "attachmentResolves (blobs exWorld) exExpense \<and>
   (case postAttachment patchFault 2000 exRequest exWorld of
      (r, w') \<Rightarrow>
        r = Next (Error ''connection terminated'') \<and>
        expenses w' = [exExpense] \<and>
        blobs w' ''Expense/Uploaded_Documents/7/B1_2000.png'' = None \<and>
        \<not> attachmentResolves (blobs w') exExpense)"
  by (simp add: ex_defs route_defs)

text \<open>
  C6 (the code departs from the claim). The claim: when the patch fails the new object is
  deleted, the original error is surfaced and the record still points at the original
  artifact. In the PDF handler the first three hold, but the original object
  \<open>OLD.pdf\<close> was deleted before the patch was tried: the row keeps its name and the store
  no longer holds it.
\<close>

theorem pdf_patch_failure_loses_original:
  "pdfResolves (blobs exWorld) exExpense \<and>
   (case postPdf patchFault exPdfRequest exWorld of
      (r, w') \<Rightarrow>
        r = Next (Error ''connection terminated'') \<and>
        blobs w' ''Expense/Generated_pdfs/7/B1.pdf'' = None \<and>
        map expenseFileName (expenses w') = [Some ''OLD.pdf''] \<and>
        blobs w' ''Expense/Generated_pdfs/7/OLD.pdf'' = None)"
  by (simp add: ex_defs route_defs)

text \<open>
  C8, counterexample. The claim: every attach/replace uploads under a fresh,
  timestamp-qualified name distinct from the one the record references. The PDF handler
  takes no timestamp: expense 3 already references \<open>B1.pdf\<close>, the upload goes to
  \<open>B1.pdf\<close> again and the old object is overwritten in place.
\<close>

theorem pdf_upload_reuses_current_name:
  "expenseFileName exExpense2 = Some ''B1.pdf'' \<and>
   blobs exWorld2 ''Expense/Generated_pdfs/7/B1.pdf'' = Some (''old pdf'', ''application/pdf'') \<and>
   (case postPdf noFaults exPdfRequest exWorld2 of
      (r, w') \<Rightarrow>
        r = Json 200 ''Expense PDF uploaded successfully'' (Some ''B1.pdf'') \<and>
        blobs w' ''Expense/Generated_pdfs/7/B1.pdf'' = Some (''new pdf'', ''application/pdf''))"
  by (simp add: ex_defs route_defs)

lemma attachmentName_inj:
  "attachmentName e i now f = attachmentName e i now' f \<longleftrightarrow> now = now'"
  by (simp add: attachmentName_def show_nat_inj)

lemma blobPathOf_expense:
  "blobPathOf EXPENSE (Some c) u n = ''Expense/'' @ c @ ''/'' @ show_nat u @ ''/'' @ n"
  by (simp add: blobPathOf_def kindDir_def)

text \<open>
  C8, as amended. The attachment upload names the object
  \<open>{billNumber or BILL-id}_{Date.now()}{ext}\<close>: two timestamps give two names, and whenever
  the record's current attachment name differs from the new one a fault-free upload ends
  with the new bytes stored under the new name. The PDF upload names the object without a
  timestamp: when the record already references that name, a fault-free upload writes the
  new bytes over the object the record references and deletes nothing.
\<close>

theorem upload_filenames:
  "(now \<noteq> now' \<longrightarrow> attachmentName e i now f \<noteq> attachmentName e i now' f) \<and>
   (list_ex (ownsExpense i u) (expenses w) \<and>
    attachmentFileName e \<noteq> Some (attachmentName e i now f) \<longrightarrow>
      (case replaceAttachment noFaults now u i f e w of
         (r, w') \<Rightarrow>
           r = Json 200 ''Expense attachment uploaded successfully''
                 (Some (attachmentName e i now f)) \<and>
           blobs w' (''Expense/Uploaded_Documents/'' @ show_nat u @ ''/''
                       @ attachmentName e i now f) = Some (buffer f, mimetype f))) \<and>
   (list_ex (ownsExpense i u) (expenses w) \<and> expenseFileName e = Some (pdfName e i) \<longrightarrow>
      (case replacePdf noFaults u i f e w of
         (r, w') \<Rightarrow>
           r = Json 200 ''Expense PDF uploaded successfully'' (Some (pdfName e i)) \<and>
           blobs w' = (blobs w)(''Expense/Generated_pdfs/'' @ show_nat u @ ''/''
                                  @ the (expenseFileName e) \<mapsto> (buffer f, mimetype f))))"
proof (intro conjI impI)
  assume "now \<noteq> now'"
  then show "attachmentName e i now f \<noteq> attachmentName e i now' f"
    by (simp add: attachmentName_inj)
next
  assume a: "list_ex (ownsExpense i u) (expenses w) \<and>
    attachmentFileName e \<noteq> Some (attachmentName e i now f)"
  show "case replaceAttachment noFaults now u i f e w of
         (r, w') \<Rightarrow>
           r = Json 200 ''Expense attachment uploaded successfully''
                 (Some (attachmentName e i now f)) \<and>
           blobs w' (''Expense/Uploaded_Documents/'' @ show_nat u @ ''/''
                       @ attachmentName e i now f) = Some (buffer f, mimetype f)"
    using a
    by (auto simp: replaceAttachment_def noFaults_def uploadFile_def deleteFile_def
        updateExpenseAttachmentFilename_def blobPathOf_expense truthy_def Let_def
        split: option.splits)
next
  assume a: "list_ex (ownsExpense i u) (expenses w) \<and> expenseFileName e = Some (pdfName e i)"
  show "case replacePdf noFaults u i f e w of
         (r, w') \<Rightarrow>
           r = Json 200 ''Expense PDF uploaded successfully'' (Some (pdfName e i)) \<and>
           blobs w' = (blobs w)(''Expense/Generated_pdfs/'' @ show_nat u @ ''/''
                                  @ the (expenseFileName e) \<mapsto> (buffer f, mimetype f))"
    using a
    by (auto simp: replacePdf_def noFaults_def uploadFile_def deleteFile_def
        updateExpensePdfFilename_def blobPathOf_expense truthy_def Let_def
        split: option.splits)
qed

text \<open>
  The theorem at expense 3 of user 7: timestamps 2000 and 1000, the current attachment
  \<open>B1_1000.jpg\<close>, the current PDF \<open>B1.pdf\<close>.
\<close>

theorem upload_filenames_witness:
  "(2000::nat) \<noteq> 1000 \<and>
   attachmentName exExpense2 3 2000 exPdfUpload \<noteq> attachmentName exExpense2 3 1000 exPdfUpload \<and>
   list_ex (ownsExpense 3 7) (expenses exWorld2) \<and>
   attachmentFileName exExpense2 \<noteq> Some (attachmentName exExpense2 3 2000 exPdfUpload) \<and>
   (case replaceAttachment noFaults 2000 7 3 exPdfUpload exExpense2 exWorld2 of
      (r, w') \<Rightarrow>
        r = Json 200 ''Expense attachment uploaded successfully'' (Some ''B1_2000.pdf'') \<and>
        blobs w' ''Expense/Uploaded_Documents/7/B1_2000.pdf''
          = Some (''new pdf'', ''application/pdf'')) \<and>
   expenseFileName exExpense2 = Some (pdfName exExpense2 3) \<and>
   (case replacePdf noFaults 7 3 exPdfUpload exExpense2 exWorld2 of
      (r, w') \<Rightarrow>
        r = Json 200 ''Expense PDF uploaded successfully'' (Some ''B1.pdf'') \<and>
        blobs w' ''Expense/Generated_pdfs/7/B1.pdf'' = Some (''new pdf'', ''application/pdf''))"
proof -
  have h1: "(2000::nat) \<noteq> 1000" by simp
  have n1: "attachmentName exExpense2 3 2000 exPdfUpload = ''B1_2000.pdf''"
    by (simp add: ex_defs route_defs)
  have n2: "pdfName exExpense2 3 = ''B1.pdf''"
    by (simp add: ex_defs route_defs)
  have own: "list_ex (ownsExpense 3 7) (expenses exWorld2)"
    by (simp add: ex_defs ownsExpense_def)
  have a: "attachmentFileName exExpense2 = Some ''B1_1000.jpg''"
    by (simp add: exExpense2_def exExpense_def)
  have b: "expenseFileName exExpense2 = Some ''B1.pdf''"
    by (simp add: exExpense2_def)
  have bf: "buffer exPdfUpload = ''new pdf''" "mimetype exPdfUpload = ''application/pdf''"
    by (simp_all add: exPdfUpload_def)
  have sn: "show_nat 7 = ''7''" by (simp add: show_nat.simps digit_def)
  from upload_filenames [where now = 2000 and now' = 1000 and e = exExpense2 and i = 3
      and f = exPdfUpload and u = 7 and w = exWorld2]
  show ?thesis using h1 own
    by (auto simp: n1 n2 a b bf sn split: prod.splits)
qed

section \<open>The invoice service\<close>

lemma setHours0_less: "setHours0 tz a < setHours0 tz b \<longleftrightarrow> localDay tz a < localDay tz b"
  by (simp add: setHours0_def localDay_def msPerDay_def)

lemma statusForDueDate_localDay:
  "statusForDueDate E due =
     (if localDay (env_tz E) due < localDay (env_tz E) (env_now E) then ''overdue'' else ''pending'')"
  by (simp add: statusForDueDate_def setHours0_less)

lemma mapInvoiceToResponse_status:
  "inv_status (mapInvoiceToResponse r) = (if inv_status r = [] then ''pending'' else inv_status r)"
  by (simp add: mapInvoiceToResponse_def)

lemma statusForDueDate_nonempty: "statusForDueDate E due \<noteq> []"
  by (simp add: statusForDueDate_def)

lemma createInvoice_Inr:
  assumes "createInvoice E sf rf d s = (Inr resp, s')"
  shows "resp = mapInvoiceToResponse (newInvoiceRow E d s)"
    and "invoices s' = invoices s @ [newInvoiceRow E d s]"
  using assms
  by (auto simp: createInvoice_def Let_def createPaymentReminders_def
      split: if_splits option.splits)

lemma newInvoiceRow_status: "inv_status (newInvoiceRow E d s) = statusForDueDate E (cd_dueDate d)"
  by (simp add: newInvoiceRow_def)

lemma fold_preserves:
  "(\<And>f r. f \<in> set fs \<Longrightarrow> g (f r) = g r) \<Longrightarrow> g (fold (\<lambda>f x. f x) fs r) = g r"
  by (induction fs arbitrary: r) auto

lemma in_setField: "f \<in> set (setField x upd) \<Longrightarrow> \<exists>v. x = Some v \<and> f = upd v"
  by (auto simp: setField_def split: option.splits)

lemma updateFields_status:
  "up_status p = None \<Longrightarrow> f \<in> set (updateFields p) \<Longrightarrow> inv_status (f r) = inv_status r"
  unfolding updateFields_def by (auto dest!: in_setField)

lemma updateFields_owner:
  "f \<in> set (updateFields p) \<Longrightarrow> inv_id (f r) = inv_id r \<and> inv_userId (f r) = inv_userId r"
  unfolding updateFields_def by (auto dest!: in_setField)

lemma applyUpdate_status: "up_status p = None \<Longrightarrow> inv_status (applyUpdate E p r) = inv_status r"
  by (simp add: applyUpdate_def fold_preserves [where g = inv_status] updateFields_status)

lemma applyUpdate_owner: "ownsInvoice i u (applyUpdate E p r) = ownsInvoice i u r"
  by (simp add: applyUpdate_def ownsInvoice_def fold_preserves [where g = inv_id]
      fold_preserves [where g = inv_userId] updateFields_owner)

lemma find_map_same:
  "(\<And>x. P (f x) = P x) \<Longrightarrow> find P (map f xs) = map_option f (find P xs)"
  by (induction xs) auto

lemma updateReminders_invoices: "invoices (updateReminders a b i p r s) = invoices s"
  by (simp add: updateReminders_def deletePaymentRemindersByInvoiceId_def
      createPaymentReminders_def Let_def split: option.splits)

lemma deletePayments_invoices: "invoices (deletePaymentsByInvoiceId i u s) = invoices s"
  by (simp add: deletePaymentsByInvoiceId_def)

lemma find_owns: "find (ownsInvoice i u) xs = Some cur \<Longrightarrow> ownsInvoice i u cur"
  by (auto simp: find_Some_iff)

lemma updateInvoice_dueDate:
  assumes cur: "find (ownsInvoice i u) (invoices s) = Some cur"
    and due: "up_dueDate p = Some due"
    and st: "up_status p = None"
    and run: "updateInvoice E F i u p s = (Inr resp, s')"
  shows "inv_status resp = (if inv_status cur = ''paid'' then ''paid'' else statusForDueDate E due)"
    and "\<exists>row. find (ownsInvoice i u) (invoices s') = Some row \<and>
           inv_status row = (if inv_status cur = ''paid'' then ''paid'' else statusForDueDate E due)"
proof -
  define new where "new = statusForDueDate E due"
  define f :: "invoice \<Rightarrow> invoice" where "f = (\<lambda>r. if ownsInvoice i u r then applyUpdate E p r else r)"
  define g :: "invoice \<Rightarrow> invoice" where "g = (\<lambda>r. if inv_id r = i then r\<lparr>inv_status := new\<rparr> else r)"
  define upd where "upd = (if inv_status cur \<noteq> ''paid'' then (applyUpdate E p cur)\<lparr>inv_status := new\<rparr>
                            else applyUpdate E p cur)"
  have own: "ownsInvoice i u cur" using cur by (rule find_owns)
  have fP: "\<And>x. ownsInvoice i u (f x) = ownsInvoice i u x"
    by (simp add: f_def applyUpdate_owner)
  have gP: "\<And>x. ownsInvoice i u (g x) = ownsInvoice i u x"
    by (simp add: g_def ownsInvoice_def)
  have st0: "inv_status (applyUpdate E p cur) = inv_status cur"
    using st by (rule applyUpdate_status)
  have id0: "inv_id (applyUpdate E p cur) = i"
    using own applyUpdate_owner [of i u E p cur] by (simp add: ownsInvoice_def)
  from run cur due st have resp: "resp = mapInvoiceToResponse upd"
    and inv: "invoices s' = (if inv_status cur \<noteq> ''paid'' then map g (map f (invoices s))
                             else map f (invoices s))"
    by (auto simp: updateInvoice_def Let_def st0 upd_def new_def f_def g_def
        updateReminders_invoices deletePayments_invoices
        split: if_splits option.splits)
  have new_ne: "new \<noteq> []" by (simp add: new_def statusForDueDate_def)
  show "inv_status resp = (if inv_status cur = ''paid'' then ''paid'' else statusForDueDate E due)"
    using new_ne by (simp add: resp upd_def mapInvoiceToResponse_status st0 new_def)
  have "find (ownsInvoice i u) (invoices s') = Some upd"
    using own by (simp add: inv find_map_same fP gP cur) (simp add: f_def g_def upd_def id0)
  then show "\<exists>row. find (ownsInvoice i u) (invoices s') = Some row \<and>
           inv_status row = (if inv_status cur = ''paid'' then ''paid'' else statusForDueDate E due)"
    by (simp add: upd_def st0 new_def)
qed

lemma createInvoice_accepted:
  assumes "\<not> sf" and "createAccepted d s"
  shows "\<exists>resp s'. createInvoice E sf rf d s = (Inr resp, s')"
proof -
  from assms(2) have "find (\<lambda>it. \<not> itemKnown s (cd_userId d) it) (itemsOf d) = None"
    by (auto simp: createAccepted_def find_None_iff list_all_iff)
  with assms show ?thesis
    by (auto simp: createInvoice_def createAccepted_def Let_def)
qed

lemma updateInvoice_accepted:
  assumes "\<not> uf_store F" and "find (ownsInvoice i u) (invoices s) = Some cur"
    and "up_dueDate p = Some due" and "up_status p = None" and "updateAccepted u p s"
  shows "\<exists>resp s'. updateInvoice E F i u p s = (Inr resp, s')"
proof -
  have ne: "updateFields p \<noteq> []"
    using assms(3) by (simp add: updateFields_def setField_def)
  show ?thesis
    using assms ne
    by (auto simp: updateInvoice_def updateAccepted_def Let_def split: option.splits)
qed

lemma dateOnly_localDay:
  "0 \<le> tz \<Longrightarrow> tz < msPerDay \<Longrightarrow> localDay tz (dateOnly day) = day"
  by (simp add: localDay_def dateOnly_def msPerDay_def)

text \<open>
  C7 (the code departs from the claim). The claim: on create a document whose due date is
  today or later gets \<open>pending\<close>, and an update that changes the due date recomputes the
  status by the same rule. The code turns the due date into an instant with \<open>new Date\<close>
  before it takes the local midnight; for a date-only string that instant is midnight UTC,
  which west of UTC still lies on the evening before. Five hours west of UTC, on the local
  day 19675, an invoice whose due date is the day 19675 is created \<open>overdue\<close>, and the
  pending invoice 5 becomes \<open>overdue\<close> when its due date is set to that day. The
  milestone run passes the day of the milestone as a date-only string: there the two
  invoices it creates for milestone 11, due today, are \<open>overdue\<close> at once.
\<close>

theorem due_today_is_overdue_west_of_utc:
  "localDay (env_tz exWest) (env_now exWest) = 19675 \<and>
   (case createInvoice exWest False False (exCreate\<lparr>cd_dueDate := dateOnly 19675\<rparr>) exDb of
      (r, s') \<Rightarrow>
        (case r of Inl e \<Rightarrow> False | Inr resp \<Rightarrow> inv_status resp = ''overdue'') \<and>
        map (\<lambda>x. (inv_id x, inv_status x)) (invoices s') = [(5, ''paid''), (6, ''overdue'')]) \<and>
   (case updateInvoice exWest noUpdateFaults 5 7
           (emptyPatch\<lparr>up_dueDate := Some (dateOnly 19675)\<rparr>) exPendingDb of
      (r, s') \<Rightarrow>
        (case r of Inl e \<Rightarrow> False | Inr resp \<Rightarrow> inv_status resp = ''overdue'') \<and>
        map (\<lambda>x. (inv_id x, inv_status x)) (invoices s') = [(5, ''overdue'')]) \<and>
   map dm_id (dueMilestones exWestDb (localDay (env_tz exWest) (env_now exWest))) = [11] \<and>
   (case processMilestoneInvoices exWest exBatch (exWestDb, Map.empty) of
      None \<Rightarrow> False
    | Some (r, s', bs') \<Rightarrow>
        r = Inr \<lparr>processed = 1, created = 2, failed = 0, errors = []\<rparr> \<and>
        map (\<lambda>x. (inv_id x, inv_dueDate x = dateOnly 19675, inv_status x)) (invoices s')
          = [(5, False, ''paid''), (6, True, ''overdue''), (7, True, ''overdue'')])"
  by code_simp

text \<open>
  The status rule on instants. A call of \<open>createInvoice\<close> that passes the checks returns
  the new invoice, which, as returned and as stored, is \<open>overdue\<close> when the instant of its
  due date lies on a local day before today and \<open>pending\<close> otherwise. A call of
  \<open>updateInvoice\<close> with a due date and no status in the patch that passes the checks
  returns the invoice, which, as returned and as stored, keeps \<open>paid\<close> when it was paid and
  otherwise gets the status the same rule gives for the new due date. At or east of UTC the
  local day of the instant of a date-only string is the day the string names.
\<close>

theorem status_follows_due_instant:
  "(\<not> sf \<and> createAccepted d s \<longrightarrow>
      (\<exists>resp s'. createInvoice E sf rf d s = (Inr resp, s') \<and>
         inv_status resp = derivedStatus E (cd_dueDate d) \<and>
         inv_status (last (invoices s')) = derivedStatus E (cd_dueDate d))) \<and>
   (\<not> uf_store F \<and> find (ownsInvoice i u) (invoices s) = Some cur \<and> up_dueDate p = Some due \<and>
    up_status p = None \<and> updateAccepted u p s \<longrightarrow>
      (\<exists>resp2 s2. updateInvoice E F i u p s = (Inr resp2, s2) \<and>
         inv_status resp2 = (if inv_status cur = ''paid'' then ''paid'' else derivedStatus E due) \<and>
         (\<exists>row. find (ownsInvoice i u) (invoices s2) = Some row \<and>
            inv_status row = (if inv_status cur = ''paid'' then ''paid'' else derivedStatus E due)))) \<and>
   (0 \<le> env_tz E \<and> env_tz E < msPerDay \<longrightarrow>
      derivedStatus E (dateOnly day) =
        (if day < localDay (env_tz E) (env_now E) then ''overdue'' else ''pending''))"
proof (intro conjI impI)
  assume a: "\<not> sf \<and> createAccepted d s"
  then obtain resp s' where c: "createInvoice E sf rf d s = (Inr resp, s')"
    using createInvoice_accepted [of sf d s E rf] by blast
  have ds: "statusForDueDate E (cd_dueDate d) = derivedStatus E (cd_dueDate d)"
    by (simp add: statusForDueDate_localDay derivedStatus_def)
  from createInvoice_Inr [OF c]
  have "inv_status resp = derivedStatus E (cd_dueDate d)"
    and "inv_status (last (invoices s')) = derivedStatus E (cd_dueDate d)"
    using statusForDueDate_nonempty [of E "cd_dueDate d"]
    by (simp_all add: mapInvoiceToResponse_status newInvoiceRow_status ds)
  with c show "\<exists>resp s'. createInvoice E sf rf d s = (Inr resp, s') \<and>
         inv_status resp = derivedStatus E (cd_dueDate d) \<and>
         inv_status (last (invoices s')) = derivedStatus E (cd_dueDate d)"
    by blast
next
  assume a: "\<not> uf_store F \<and> find (ownsInvoice i u) (invoices s) = Some cur \<and>
    up_dueDate p = Some due \<and> up_status p = None \<and> updateAccepted u p s"
  have ds: "statusForDueDate E due = derivedStatus E due"
    by (simp add: statusForDueDate_localDay derivedStatus_def)
  from a have cur: "find (ownsInvoice i u) (invoices s) = Some cur"
    and due: "up_dueDate p = Some due" and st: "up_status p = None"
    and nf: "\<not> uf_store F" and acc: "updateAccepted u p s" by simp_all
  from updateInvoice_accepted [OF nf cur due st acc, of E]
  obtain resp2 s2 where run: "updateInvoice E F i u p s = (Inr resp2, s2)" by blast
  from updateInvoice_dueDate [OF cur due st run]
  have "inv_status resp2 = (if inv_status cur = ''paid'' then ''paid'' else derivedStatus E due)"
    and "\<exists>row. find (ownsInvoice i u) (invoices s2) = Some row \<and>
         inv_status row = (if inv_status cur = ''paid'' then ''paid'' else derivedStatus E due)"
    by (auto simp: ds)
  with run show "\<exists>resp2 s2. updateInvoice E F i u p s = (Inr resp2, s2) \<and>
         inv_status resp2 = (if inv_status cur = ''paid'' then ''paid'' else derivedStatus E due) \<and>
         (\<exists>row. find (ownsInvoice i u) (invoices s2) = Some row \<and>
            inv_status row = (if inv_status cur = ''paid'' then ''paid'' else derivedStatus E due))"
    by blast
next
  assume "0 \<le> env_tz E \<and> env_tz E < msPerDay"
  then show "derivedStatus E (dateOnly day) =
        (if day < localDay (env_tz E) (env_now E) then ''overdue'' else ''pending'')"
    by (simp add: derivedStatus_def dateOnly_localDay)
qed

lemma exCreate_accepted: "createAccepted exCreate exDb"
  by (simp add: createAccepted_def exCreate_def exDb_def itemsOf_def itemKnown_def natOrNull_def)

lemma exPatch_accepted: "updateAccepted 7 exPatch s"
  by (simp add: updateAccepted_def exPatch_def emptyPatch_def natOrNull_def)

text \<open>
  The theorem at work, five and a half hours east of UTC on the local day 19676: an
  invoice due on 1699800000000 is created overdue; the pending invoice 5 becomes overdue
  when its due date is moved to that instant, and the paid invoice 5 stays paid; an
  invoice due on the day 19676 is pending and one due on the day 19675 is overdue.
\<close>

theorem status_follows_due_instant_witness:
  "(\<exists>resp s'. createInvoice exEnv False False exCreate exDb = (Inr resp, s') \<and>
      inv_status resp = ''overdue'' \<and> inv_status (last (invoices s')) = ''overdue'') \<and>
   (\<exists>resp2 s2. updateInvoice exEnv noUpdateFaults 5 7 exPatch exPendingDb = (Inr resp2, s2) \<and>
      inv_status resp2 = ''overdue'' \<and>
      (\<exists>row. find (ownsInvoice 5 7) (invoices s2) = Some row \<and> inv_status row = ''overdue'')) \<and>
   (\<exists>resp2 s2. updateInvoice exEnv noUpdateFaults 5 7 exPatch exDb = (Inr resp2, s2) \<and>
      inv_status resp2 = ''paid'' \<and>
      (\<exists>row. find (ownsInvoice 5 7) (invoices s2) = Some row \<and> inv_status row = ''paid'')) \<and>
   derivedStatus exEnv (dateOnly 19676) = ''pending'' \<and>
   derivedStatus exEnv (dateOnly 19675) = ''overdue''"
proof -
  have nf: "\<not> uf_store noUpdateFaults" by (simp add: noUpdateFaults_def)
  have f1: "find (ownsInvoice 5 7) (invoices exPendingDb) = Some (exInvoice\<lparr>inv_status := ''pending''\<rparr>)"
    by (simp add: exPendingDb_def exDb_def exInvoice_def ownsInvoice_def)
  have f2: "find (ownsInvoice 5 7) (invoices exDb) = Some exInvoice"
    by (simp add: exDb_def exInvoice_def ownsInvoice_def)
  have p: "up_dueDate exPatch = Some 1699800000000" "up_status exPatch = None"
    by (simp_all add: exPatch_def emptyPatch_def)
  have d1: "derivedStatus exEnv (cd_dueDate exCreate) = ''overdue''"
    "derivedStatus exEnv 1699800000000 = ''overdue''"
    by (simp_all add: derivedStatus_def exEnv_def exCreate_def localDay_def msPerDay_def)
  have paid: "inv_status exInvoice = ''paid''" by (simp add: exInvoice_def)
  have tz: "0 \<le> env_tz exEnv \<and> env_tz exEnv < msPerDay"
    by (simp add: exEnv_def msPerDay_def)
  have today: "localDay (env_tz exEnv) (env_now exEnv) = 19676"
    by (simp add: exEnv_def localDay_def msPerDay_def)
  note t1 = status_follows_due_instant [where sf = False and rf = False and d = exCreate
      and s = exDb and E = exEnv]
  note t2 = status_follows_due_instant [where F = noUpdateFaults and i = 5 and u = 7
      and s = exPendingDb and cur = "exInvoice\<lparr>inv_status := ''pending''\<rparr>" and p = exPatch
      and due = 1699800000000 and E = exEnv]
  note t3 = status_follows_due_instant [where F = noUpdateFaults and i = 5 and u = 7
      and s = exDb and cur = exInvoice and p = exPatch and due = 1699800000000 and E = exEnv]
  note t4 = status_follows_due_instant [where E = exEnv and day = 19676]
  note t5 = status_follows_due_instant [where E = exEnv and day = 19675]
  have a: "\<exists>resp s'. createInvoice exEnv False False exCreate exDb = (Inr resp, s') \<and>
      inv_status resp = ''overdue'' \<and> inv_status (last (invoices s')) = ''overdue''"
    using t1 exCreate_accepted by (simp add: d1)
  have b: "\<exists>resp2 s2. updateInvoice exEnv noUpdateFaults 5 7 exPatch exPendingDb = (Inr resp2, s2) \<and>
      inv_status resp2 = ''overdue'' \<and>
      (\<exists>row. find (ownsInvoice 5 7) (invoices s2) = Some row \<and> inv_status row = ''overdue'')"
    using t2 nf f1 p exPatch_accepted [of exPendingDb] by (simp add: d1)
  have c: "\<exists>resp2 s2. updateInvoice exEnv noUpdateFaults 5 7 exPatch exDb = (Inr resp2, s2) \<and>
      inv_status resp2 = ''paid'' \<and>
      (\<exists>row. find (ownsInvoice 5 7) (invoices s2) = Some row \<and> inv_status row = ''paid'')"
    using t3 nf f2 p exPatch_accepted [of exDb] by (simp add: paid)
  have d: "derivedStatus exEnv (dateOnly 19676) = ''pending''"
    using t4 tz by (simp add: today)
  have e: "derivedStatus exEnv (dateOnly 19675) = ''overdue''"
    using t5 tz by (simp add: today)
  from a b c d e show ?thesis by blast
qed

lemma find_None_list_ex: "find P xs = None \<longleftrightarrow> \<not> list_ex P xs"
  by (auto simp: find_None_iff list_ex_iff)

lemma no_id_no_owner:
  "\<not> list_ex (\<lambda>r. inv_id r = i) xs \<Longrightarrow> \<not> list_ex (ownsInvoice i u) xs"
  by (auto simp: list_ex_iff ownsInvoice_def)

lemma not_owned_outcomes:
  assumes "\<not> list_ex (ownsInvoice i u) (invoices s)"
  shows "getInvoiceById sf s i u =
           Inl (if sf then AppError ''Failed to retrieve invoice'' 500 else notFound)"
    and "updateInvoice E F i u p s =
           (Inl (if uf_store F then AppError ''Failed to update invoice'' 500 else notFound), s)"
    and "deleteInvoice sf bf i u (s, bs) =
           (Inl (if sf then AppError ''Failed to delete invoice'' 500 else notFound), s, bs)"
  using assms
  by (simp_all add: getInvoiceById_def updateInvoice_def deleteInvoice_def notFound_def
      find_None_list_ex [symmetric])

text \<open>
  C9. When invoice \<open>i\<close> exists in \<open>s1\<close> but belongs to another owner, and no invoice \<open>i\<close>
  exists in \<open>s2\<close>, then reading, updating and deleting \<open>(i, u)\<close> give the same outcome in
  both stores, whatever faults are injected; with a working store that outcome is the 404
  \<open>Invoice not found\<close>, and nothing is changed.
\<close>

theorem foreign_invoice_is_not_found:
  "list_ex (\<lambda>r. inv_id r = i \<and> inv_userId r \<noteq> u) (invoices s1) \<and>
   \<not> list_ex (ownsInvoice i u) (invoices s1) \<and>
   \<not> list_ex (\<lambda>r. inv_id r = i) (invoices s2) \<longrightarrow>
     getInvoiceById sf s1 i u = getInvoiceById sf s2 i u \<and>
     fst (updateInvoice E F i u p s1) = fst (updateInvoice E F i u p s2) \<and>
     fst (deleteInvoice sf bf i u (s1, bs1)) = fst (deleteInvoice sf bf i u (s2, bs2)) \<and>
     getInvoiceById False s1 i u = Inl notFound \<and>
     updateInvoice E noUpdateFaults i u p s1 = (Inl notFound, s1) \<and>
     deleteInvoice False bf i u (s1, bs1) = (Inl notFound, s1, bs1)"
proof
  assume a: "list_ex (\<lambda>r. inv_id r = i \<and> inv_userId r \<noteq> u) (invoices s1) \<and>
   \<not> list_ex (ownsInvoice i u) (invoices s1) \<and>
   \<not> list_ex (\<lambda>r. inv_id r = i) (invoices s2)"
  then have n1: "\<not> list_ex (ownsInvoice i u) (invoices s1)" by simp
  from a have n2: "\<not> list_ex (ownsInvoice i u) (invoices s2)"
    by (simp add: no_id_no_owner)
  show "getInvoiceById sf s1 i u = getInvoiceById sf s2 i u \<and>
     fst (updateInvoice E F i u p s1) = fst (updateInvoice E F i u p s2) \<and>
     fst (deleteInvoice sf bf i u (s1, bs1)) = fst (deleteInvoice sf bf i u (s2, bs2)) \<and>
     getInvoiceById False s1 i u = Inl notFound \<and>
     updateInvoice E noUpdateFaults i u p s1 = (Inl notFound, s1) \<and>
     deleteInvoice False bf i u (s1, bs1) = (Inl notFound, s1, bs1)"
    by (simp add: not_owned_outcomes [OF n1] not_owned_outcomes [OF n2] noUpdateFaults_def)
qed

text \<open>
  The theorem at work: user 8 asks for invoice 5 of user 7, and for invoice 5 in a store
  without invoices.
\<close>

theorem foreign_invoice_is_not_found_witness:
  "list_ex (\<lambda>r. inv_id r = 5 \<and> inv_userId r \<noteq> 8) (invoices exDb) \<and>
   \<not> list_ex (ownsInvoice 5 8) (invoices exDb) \<and>
   \<not> list_ex (\<lambda>r. inv_id r = 5) (invoices (exDb\<lparr>invoices := []\<rparr>)) \<and>
   getInvoiceById False exDb 5 8 = getInvoiceById False (exDb\<lparr>invoices := []\<rparr>) 5 8 \<and>
   getInvoiceById False exDb 5 8 = Inl (AppError ''Invoice not found'' 404) \<and>
   updateInvoice exEnv noUpdateFaults 5 8 exPatch exDb = (Inl (AppError ''Invoice not found'' 404), exDb) \<and>
   deleteInvoice False None 5 8 (exDb, Map.empty) = (Inl (AppError ''Invoice not found'' 404), exDb, Map.empty)"
proof -
  have h: "list_ex (\<lambda>r. inv_id r = 5 \<and> inv_userId r \<noteq> 8) (invoices exDb) \<and>
   \<not> list_ex (ownsInvoice 5 8) (invoices exDb) \<and>
   \<not> list_ex (\<lambda>r. inv_id r = 5) (invoices (exDb\<lparr>invoices := []\<rparr>))"
    by (simp add: exDb_def exInvoice_def ownsInvoice_def)
  note r = foreign_invoice_is_not_found [of 5 8 exDb "exDb\<lparr>invoices := []\<rparr>" False exEnv
      noUpdateFaults exPatch None Map.empty Map.empty, THEN mp, OF h]
  from r h show ?thesis unfolding notFound_def by blast
qed

text \<open>
  C10. For an existing invoice of the user and a working store, a patch that defines no
  field fails with the 400 \<open>No fields to update\<close> and the whole store, the invoice with
  its \<open>updatedAt\<close> and the payment reminders included, is as before.
\<close>

theorem empty_patch_rejected:
  "list_ex (ownsInvoice i u) (invoices s) \<and> \<not> uf_store F \<longrightarrow>
     updateInvoice E F i u emptyPatch s = (Inl (AppError ''No fields to update'' 400), s)"
  by (auto simp: updateInvoice_def emptyPatch_def updateFields_def setField_def natOrNull_def
      find_None_list_ex Let_def split: option.splits)

text \<open>The theorem at work on invoice 5 of user 7.\<close>

theorem empty_patch_rejected_witness:
  "list_ex (ownsInvoice 5 7) (invoices exDb) \<and> \<not> uf_store noUpdateFaults \<and>
   updateInvoice exEnv noUpdateFaults 5 7 emptyPatch exDb
     = (Inl (AppError ''No fields to update'' 400), exDb)"
proof -
  have h: "list_ex (ownsInvoice 5 7) (invoices exDb) \<and> \<not> uf_store noUpdateFaults"
    by (simp add: exDb_def exInvoice_def ownsInvoice_def noUpdateFaults_def)
  from empty_patch_rejected [of 5 7 exDb noUpdateFaults exEnv]
  show ?thesis using h by simp
qed

section \<open>The batch run\<close>

subsection \<open>Loops\<close>

lemma forOf_invariant:
  assumes "forOf body xs st = Some fin" and "P st"
    and step: "\<And>x a b. body x a = Some b \<Longrightarrow> P a \<Longrightarrow> P b"
  shows "P fin"
  using assms(1,2)
proof (induction xs arbitrary: st)
  case Nil
  then show ?case by simp
next
  case (Cons x xs)
  from Cons.prems(1) obtain st1 where b: "body x st = Some st1"
    and r: "forOf body xs st1 = Some fin"
    by (auto split: option.splits)
  from step [OF b Cons.prems(2)] have "P st1" .
  with r show ?case by (rule Cons.IH)
qed

lemma forOf_related:
  assumes "forOf f xs a = Some a'" and "forOf g xs b = Some b'" and "R a b"
    and step: "\<And>x a b a' b'. R a b \<Longrightarrow> f x a = Some a' \<Longrightarrow> g x b = Some b' \<Longrightarrow> R a' b'"
  shows "R a' b'"
  using assms(1,2,3)
proof (induction xs arbitrary: a b)
  case Nil
  then show ?case by simp
next
  case (Cons x xs)
  from Cons.prems(1) obtain a1 where fa: "f x a = Some a1" and ra: "forOf f xs a1 = Some a'"
    by (auto split: option.splits)
  from Cons.prems(2) obtain b1 where gb: "g x b = Some b1" and rb: "forOf g xs b1 = Some b'"
    by (auto split: option.splits)
  from step [OF Cons.prems(3) fa gb] have "R a1 b1" .
  with ra rb show ?case by (rule Cons.IH)
qed

lemma forOf_returns:
  assumes "\<And>x a. \<exists>b. body x a = Some b"
  shows "\<exists>fin. forOf body xs st = Some fin"
proof (induction xs arbitrary: st)
  case Nil
  show ?case by simp
next
  case (Cons x xs)
  from assms obtain b where "body x st = Some b" by blast
  with Cons.IH [of b] show ?case by simp
qed

subsection \<open>Counting\<close>

lemma processClient_summary:
  assumes "processClient E B m itemId c st = Some a"
  shows "summary a =
     (case fst (createInvoice E (create_fails B (dm_id m) c) False
                  (milestoneInvoiceData B m itemId c) (store st)) of
        Inl e \<Rightarrow>
          (summary st)
            \<lparr>failed := failed (summary st) + 1,
             errors := errors (summary st)
               @ [(dm_id m, ''Failed to create invoice for client '' @ show_nat c
                              @ '': '' @ message e)]\<rparr>
      | Inr r \<Rightarrow> (summary st)\<lparr>created := created (summary st) + 1\<rparr>)"
  using assms
  by (auto simp: processClient_def split: prod.splits sum.splits option.splits)

lemma processClient_counts:
  assumes "processClient E B m itemId c st = Some a"
  shows "created (summary a) + failed (summary a) = created (summary st) + failed (summary st) + 1"
    and "processed (summary a) = processed (summary st)"
  by (simp_all add: processClient_summary [OF assms] split: sum.splits)

lemma clients_counts:
  assumes "forOf (processClient E B m itemId) cs st = Some fin"
  shows "created (summary fin) + failed (summary fin)
           = created (summary st) + failed (summary st) + length cs"
  using assms
proof (induction cs arbitrary: st)
  case Nil
  then show ?case by simp
next
  case (Cons c cs)
  from Cons.prems obtain st1 where b: "processClient E B m itemId c st = Some st1"
    and r: "forOf (processClient E B m itemId) cs st1 = Some fin"
    by (auto split: option.splits)
  from Cons.IH [OF r] processClient_counts(1) [OF b] show ?case by simp
qed

lemma clients_processed:
  assumes "forOf (processClient E B m itemId) cs st = Some fin"
  shows "processed (summary fin) = processed (summary st)"
  by (rule forOf_invariant [OF assms, where P = "\<lambda>a. processed (summary a) = processed (summary st)"])
    (simp_all add: processClient_counts)

lemma markMilestone_processed: "processed (summary (markMilestone B m st)) = processed (summary st)"
  by (simp add: markMilestone_def recordFailure_def split: sum.splits)

lemma processMilestone_processed:
  assumes "processMilestone E B m st = Some a"
  shows "processed (summary a) = processed (summary st) + 1"
  using assms
  by (auto simp: processMilestone_def tryMilestone_def recordFailure_def markMilestone_processed
      dest!: clients_processed split: sum.splits prod.splits if_splits option.splits)

lemma milestones_processed:
  assumes "forOf (processMilestone E B) ms st = Some fin"
  shows "processed (summary fin) = processed (summary st) + length ms"
  using assms
proof (induction ms arbitrary: st)
  case Nil
  then show ?case by simp
next
  case (Cons m ms)
  from Cons.prems obtain st1 where b: "processMilestone E B m st = Some st1"
    and r: "forOf (processMilestone E B) ms st1 = Some fin"
    by (auto split: option.splits)
  from Cons.IH [OF r] processMilestone_processed [OF b] show ?case by simp
qed

subsection \<open>When a run returns\<close>

lemma generateInvoicePdf_settles:
  assumes "\<not> cf" and "\<And>x. ends (draw x)"
  shows "\<exists>out. generateInvoicePdf cf qf draw s i u = Some out"
proof (cases "find (\<lambda>r. ownsInvoice i u r \<and>
                           list_ex (\<lambda>u. usr_id u = inv_userId r) (users s) \<and>
                           list_ex (\<lambda>c. cl_id c = inv_clientId r) (master_clients s))
                (invoices s)")
  case None
  with assms(1) show ?thesis by (simp add: generateInvoicePdf_def split: option.splits)
next
  case (Some r)
  from assms(2) [of r] have "\<exists>out. (case draw r of Drawn pdf \<Rightarrow> Some (Inr pdf) | Threw e \<Rightarrow> None
      | Emitted e \<Rightarrow> Some (Inl e)) = Some (out :: error + string)"
    by (cases "draw r") (simp_all add: ends_def)
  with assms(1) Some show ?thesis by (simp add: generateInvoicePdf_def split: option.splits)
qed

lemma generateAndUploadPdf_returns:
  assumes "\<not> pdfConnect_fails B (inv_id resp)" and "\<And>x. ends (render B x)"
  shows "\<exists>out. generateAndUploadPdf E B resp u st = Some out"
proof -
  obtain s bs where st: "st = (s, bs)" by (cases st)
  from generateInvoicePdf_settles [of "pdfConnect_fails B (inv_id resp)" "render B", OF assms]
  obtain out where "generateInvoicePdf (pdfConnect_fails B (inv_id resp))
      (pdfQuery_fails B (inv_id resp)) (render B) s (inv_id resp) u = Some out" by blast
  then show ?thesis
    by (simp add: generateAndUploadPdf_def st Let_def split: sum.splits prod.splits)
qed

lemma processClient_returns:
  assumes "\<And>i. \<not> pdfConnect_fails B i" and "\<And>x. ends (render B x)"
  shows "\<exists>a. processClient E B m itemId c st = Some a"
proof (cases "createInvoice E (create_fails B (dm_id m) c) False (milestoneInvoiceData B m itemId c) (store st)")
  case (Pair r s1)
  show ?thesis
  proof (cases r)
    case (Inl e)
    with Pair show ?thesis by (simp add: processClient_def)
  next
    case (Inr resp)
    from generateAndUploadPdf_returns [of B resp, OF assms(1) assms(2)]
    obtain out where "generateAndUploadPdf E B resp (dm_userId m) (s1, artifacts st) = Some out"
      by blast
    with Pair Inr show ?thesis by (simp add: processClient_def split: prod.splits)
  qed
qed

lemma tryMilestone_returns:
  assumes "\<And>i. \<not> pdfConnect_fails B i" and "\<And>x. ends (render B x)"
  shows "\<exists>a. tryMilestone E B m st = Some a"
proof -
  have loop: "\<exists>fin. forOf (processClient E B m itemId) cs st0 = Some fin" for itemId cs st0
    by (rule forOf_returns) (rule processClient_returns [OF assms])
  show ?thesis
  proof (cases "clients_of B (dm_projectId m) (dm_userId m)")
    case (Inl e)
    then show ?thesis by (simp add: tryMilestone_def)
  next
    case cl: (Inr clients)
    show ?thesis
    proof (cases "getOrCreateItemByName (item_fails B (dm_id m)) (dm_userId m)
                    (dm_serviceType m) (store st)")
      case (Inl e)
      with cl show ?thesis by (simp add: tryMilestone_def)
    next
      case (Inr v)
      obtain itemId s1 where v: "v = (itemId, s1)" by (cases v)
      from loop [of itemId clients "st\<lparr>store := s1\<rparr>"] obtain fin
        where "forOf (processClient E B m itemId) clients (st\<lparr>store := s1\<rparr>) = Some fin"
        by blast
      with cl Inr v show ?thesis by (simp add: tryMilestone_def)
    qed
  qed
qed

lemma milestones_return:
  assumes "\<And>i. \<not> pdfConnect_fails B i" and "\<And>x. ends (render B x)"
  shows "\<exists>fin. forOf (processMilestone E B) ms st = Some fin"
  by (rule forOf_returns) (simp add: processMilestone_def tryMilestone_returns [OF assms])

lemma run_returns:
  assumes "connect_fails B = None" and "query_fails B = None"
    and "\<And>i. \<not> pdfConnect_fails B i" and "\<And>x. ends (render B x)"
  shows "\<exists>res s' bs'. processMilestoneInvoices E B (s, bs) = Some (Inr res, s', bs') \<and>
           processed res = length (dueMilestones s (localDay (env_tz E) (env_now E)))"
proof -
  from milestones_return [OF assms(3,4)]
  obtain fin where f: "forOf (processMilestone E B)
      (dueMilestones s (localDay (env_tz E) (env_now E)))
      \<lparr>summary = emptyResult, store = s, artifacts = bs\<rparr> = Some fin"
    by blast
  from milestones_processed [OF f]
  have "processed (summary fin) = length (dueMilestones s (localDay (env_tz E) (env_now E)))"
    by (simp add: emptyResult_def)
  with f assms(1,2) show ?thesis by (simp add: processMilestoneInvoices_def)
qed

subsection \<open>Runs that differ in their PDF steps\<close>

lemma forgetPdf_fields [simp]:
  "users (forgetPdf s) = users s" "master_clients (forgetPdf s) = master_clients s"
  "projects (forgetPdf s) = projects s" "items (forgetPdf s) = items s"
  "invoice_items (forgetPdf s) = invoice_items s" "payments (forgetPdf s) = payments s"
  "payment_reminders (forgetPdf s) = payment_reminders s"
  "agreement_payment_milestones (forgetPdf s) = agreement_payment_milestones s"
  "agreement_payment_terms (forgetPdf s) = agreement_payment_terms s"
  "agreements (forgetPdf s) = agreements s"
  "next_invoice_id (forgetPdf s) = next_invoice_id s" "next_item_id (forgetPdf s) = next_item_id s"
  by (simp_all add: forgetPdf_def)

lemma forgetPdf_eqD:
  assumes "forgetPdf s = forgetPdf s'"
  shows "\<exists>xs. s' = s\<lparr>invoices := xs\<rparr> \<and> map erasePdf xs = map erasePdf (invoices s)"
proof -
  have a: "users s = users s'" using arg_cong [OF assms, of users] by simp
  have b: "master_clients s = master_clients s'" using arg_cong [OF assms, of master_clients] by simp
  have c: "projects s = projects s'" using arg_cong [OF assms, of projects] by simp
  have d: "items s = items s'" using arg_cong [OF assms, of items] by simp
  have e: "invoice_items s = invoice_items s'" using arg_cong [OF assms, of invoice_items] by simp
  have f: "payments s = payments s'" using arg_cong [OF assms, of payments] by simp
  have g: "payment_reminders s = payment_reminders s'"
    using arg_cong [OF assms, of payment_reminders] by simp
  have h: "agreement_payment_milestones s = agreement_payment_milestones s'"
    using arg_cong [OF assms, of agreement_payment_milestones] by simp
  have i: "agreement_payment_terms s = agreement_payment_terms s'"
    using arg_cong [OF assms, of agreement_payment_terms] by simp
  have j: "agreements s = agreements s'" using arg_cong [OF assms, of agreements] by simp
  have k: "next_invoice_id s = next_invoice_id s'" using arg_cong [OF assms, of next_invoice_id] by simp
  have l: "next_item_id s = next_item_id s'" using arg_cong [OF assms, of next_item_id] by simp
  have m: "invoices (forgetPdf s) = invoices (forgetPdf s')" using assms by simp
  have "s' = s\<lparr>invoices := invoices s'\<rparr>"
    using a b c d e f g h i j k l by (intro db.equality) simp_all
  moreover have "map erasePdf (invoices s') = map erasePdf (invoices s)"
    using m by (simp add: forgetPdf_def)
  ultimately show ?thesis by blast
qed

lemma forgetPdf_eqI:
  "map erasePdf xs = map erasePdf (invoices s) \<Longrightarrow> forgetPdf (s\<lparr>invoices := xs\<rparr>) = forgetPdf s"
  by (simp add: forgetPdf_def)

lemma newInvoiceRow_invoices: "newInvoiceRow E d (s\<lparr>invoices := xs\<rparr>) = newInvoiceRow E d s"
  by (simp add: newInvoiceRow_def defaultCurrency_def cong: option.case_cong)

lemma itemKnown_invoices: "itemKnown (s\<lparr>invoices := xs\<rparr>) u = itemKnown s u"
  by (simp add: itemKnown_def fun_eq_iff)

lemma createInvoice_invoices:
  "fst (createInvoice E f rf d (s\<lparr>invoices := xs\<rparr>)) = fst (createInvoice E f rf d s)"
  "map erasePdf xs = map erasePdf (invoices s) \<Longrightarrow>
     forgetPdf (snd (createInvoice E f rf d (s\<lparr>invoices := xs\<rparr>)))
       = forgetPdf (snd (createInvoice E f rf d s))"
  by (simp_all add: createInvoice_def newInvoiceRow_invoices itemKnown_invoices Let_def
      forgetPdf_def createPaymentReminders_def split: option.splits)

lemma createInvoice_forget:
  assumes "forgetPdf s = forgetPdf s'"
  shows "fst (createInvoice E f rf d s') = fst (createInvoice E f rf d s)"
    and "forgetPdf (snd (createInvoice E f rf d s')) = forgetPdf (snd (createInvoice E f rf d s))"
proof -
  from forgetPdf_eqD [OF assms] obtain xs
    where s': "s' = s\<lparr>invoices := xs\<rparr>" and xs: "map erasePdf xs = map erasePdf (invoices s)"
    by blast
  show "fst (createInvoice E f rf d s') = fst (createInvoice E f rf d s)"
    by (simp add: s' createInvoice_invoices)
  show "forgetPdf (snd (createInvoice E f rf d s')) = forgetPdf (snd (createInvoice E f rf d s))"
    using xs by (simp add: s' createInvoice_invoices)
qed

lemma erasePdf_patch:
  "erasePdf (r\<lparr>invoice_file_name := x, inv_updatedAt := t\<rparr>) = erasePdf r"
  by (simp add: erasePdf_def)

lemma updateInvoicePdfFilename_forget:
  "updateInvoicePdfFilename E fl i u n s = Inr s1 \<Longrightarrow> forgetPdf s1 = forgetPdf s"
  by (auto simp: updateInvoicePdfFilename_def forgetPdf_def erasePdf_patch
      split: option.splits if_splits)

lemma generateAndUploadPdf_forget:
  "generateAndUploadPdf E B resp u (s, bs) = Some (out, s2, bs2) \<Longrightarrow> forgetPdf s2 = forgetPdf s"
  by (auto simp: generateAndUploadPdf_def uploadFile_def Let_def
      dest: updateInvoicePdfFilename_forget split: sum.splits option.splits prod.splits)

lemma getOrCreateItemByName_invoices:
  "getOrCreateItemByName fl u n (s\<lparr>invoices := xs\<rparr>) =
     map_sum id (\<lambda>(i, t). (i, t\<lparr>invoices := xs\<rparr>)) (getOrCreateItemByName fl u n s)"
  by (simp add: getOrCreateItemByName_def getItemsByUserId_def createItem_def
      split: option.splits)

lemma getOrCreateItemByName_keeps:
  "getOrCreateItemByName fl u n s = Inr (i, t) \<Longrightarrow> invoices t = invoices s"
  by (auto simp: getOrCreateItemByName_def createItem_def split: option.splits)

lemma getOrCreateItemByName_forget:
  assumes "forgetPdf s = forgetPdf s'"
  shows "rel_sum (=) (\<lambda>a b. fst a = fst b \<and> forgetPdf (snd a) = forgetPdf (snd b))
           (getOrCreateItemByName fl u n s) (getOrCreateItemByName fl u n s')"
proof -
  from forgetPdf_eqD [OF assms] obtain xs
    where s': "s' = s\<lparr>invoices := xs\<rparr>" and xs: "map erasePdf xs = map erasePdf (invoices s)"
    by blast
  show ?thesis
  proof (cases "getOrCreateItemByName fl u n s")
    case (Inl e)
    then show ?thesis by (simp add: s' getOrCreateItemByName_invoices)
  next
    case (Inr a)
    obtain i t where a: "a = (i, t)" by (cases a)
    from Inr a have "invoices t = invoices s" by (simp add: getOrCreateItemByName_keeps)
    with xs have "forgetPdf (t\<lparr>invoices := xs\<rparr>) = forgetPdf t" by (simp add: forgetPdf_eqI)
    with Inr a show ?thesis by (simp add: s' getOrCreateItemByName_invoices)
  qed
qed

lemma markCreated_forget:
  assumes "forgetPdf s = forgetPdf s'"
  shows "rel_sum (=) (\<lambda>a b. forgetPdf a = forgetPdf b) (markCreated fl i s) (markCreated fl i s')"
proof -
  from forgetPdf_eqD [OF assms] obtain xs
    where s': "s' = s\<lparr>invoices := xs\<rparr>" and xs: "map erasePdf xs = map erasePdf (invoices s)"
    by blast
  show ?thesis using xs
    by (simp add: s' markCreated_def forgetPdf_def split: option.splits)
qed

lemma otherPdf_fields [simp]:
  "clients_of (otherPdf B q r u p) = clients_of B" "item_fails (otherPdf B q r u p) = item_fails B"
  "create_fails (otherPdf B q r u p) = create_fails B" "mark_fails (otherPdf B q r u p) = mark_fails B"
  "query_fails (otherPdf B q r u p) = query_fails B" "pgDate (otherPdf B q r u p) = pgDate B"
  "connect_fails (otherPdf B q r u p) = connect_fails B"
  by (simp_all add: otherPdf_def)

lemma milestoneInvoiceData_otherPdf [simp]:
  "milestoneInvoiceData (otherPdf B q r u p) = milestoneInvoiceData B"
  by (simp add: milestoneInvoiceData_def invoiceDay_def fun_eq_iff)

lemma markMilestone_otherPdf [simp]: "markMilestone (otherPdf B q r u p) = markMilestone B"
  by (simp add: markMilestone_def fun_eq_iff)

lemma processClient_store:
  assumes "processClient E B m i c st = Some a"
  shows "forgetPdf (store a)
     = forgetPdf (snd (createInvoice E (create_fails B (dm_id m) c) False
                         (milestoneInvoiceData B m i c) (store st)))"
proof (cases "createInvoice E (create_fails B (dm_id m) c) False (milestoneInvoiceData B m i c) (store st)")
  case (Pair r s1)
  show ?thesis
  proof (cases r)
    case (Inl e)
    with Pair assms show ?thesis by (auto simp: processClient_def)
  next
    case (Inr resp)
    with Pair assms obtain out s2 bs2 where
      g: "generateAndUploadPdf E B resp (dm_userId m) (s1, artifacts st) = Some (out, s2, bs2)"
      and a: "store a = s2"
      by (auto simp: processClient_def split: option.splits)
    from generateAndUploadPdf_forget [OF g] a Pair show ?thesis by simp
  qed
qed

lemma processClient_same:
  assumes "samePdfFree st st'"
    and a: "processClient E B m i c st = Some a"
    and b: "processClient E (otherPdf B q r u p) m i c st' = Some b"
  shows "samePdfFree a b"
proof -
  from assms(1) have sm: "summary st = summary st'"
    and fg: "forgetPdf (store st) = forgetPdf (store st')"
    by (simp_all add: samePdfFree_def)
  note ci = createInvoice_forget [OF fg, of E "create_fails B (dm_id m) c" False
      "milestoneInvoiceData B m i c"]
  have "summary a = summary b"
    by (simp add: processClient_summary [OF a] processClient_summary [OF b] ci(1) sm
        split: sum.splits)
  moreover have "forgetPdf (store a) = forgetPdf (store b)"
    by (simp add: processClient_store [OF a] processClient_store [OF b] ci(2))
  ultimately show ?thesis by (simp add: samePdfFree_def)
qed

lemma clients_same:
  assumes "forOf (processClient E B m i) cs st = Some a"
    and "forOf (processClient E (otherPdf B q r u p) m i) cs st' = Some b"
    and "samePdfFree st st'"
  shows "samePdfFree a b"
  using assms(1,2,3)
  by (rule forOf_related) (rule processClient_same)

lemma samePdfFree_recordFailure:
  "samePdfFree a b \<Longrightarrow> samePdfFree (recordFailure i msg a) (recordFailure i msg b)"
  by (simp add: samePdfFree_def recordFailure_def)

lemma samePdfFree_store:
  "samePdfFree a b \<Longrightarrow> forgetPdf s = forgetPdf s' \<Longrightarrow>
     samePdfFree (a\<lparr>store := s\<rparr>) (b\<lparr>store := s'\<rparr>)"
  by (simp add: samePdfFree_def)

lemma markMilestone_same:
  assumes "samePdfFree a b"
  shows "samePdfFree (markMilestone B m a) (markMilestone B m b)"
proof -
  from assms have fg: "forgetPdf (store a) = forgetPdf (store b)" by (simp add: samePdfFree_def)
  show ?thesis
    unfolding markMilestone_def
    using markCreated_forget [OF fg, of "mark_fails B (dm_id m)" "dm_id m"]
      samePdfFree_recordFailure [OF assms] samePdfFree_store [OF assms]
    by (cases "markCreated (mark_fails B (dm_id m)) (dm_id m) (store a)";
        cases "markCreated (mark_fails B (dm_id m)) (dm_id m) (store b)") simp_all
qed

lemma tryMilestone_same:
  assumes R: "samePdfFree st st'"
    and a: "tryMilestone E B m st = Some x"
    and b: "tryMilestone E (otherPdf B q r u p) m st' = Some y"
  shows "samePdfFree x y"
proof -
  from R have fg: "forgetPdf (store st) = forgetPdf (store st')" by (simp add: samePdfFree_def)
  show ?thesis
  proof (cases "clients_of B (dm_projectId m) (dm_userId m)")
    case (Inl e)
    with a b show ?thesis
      using samePdfFree_recordFailure [OF R] by (auto simp: tryMilestone_def)
  next
    case cl: (Inr clients)
    show ?thesis
    proof (cases "clients = []")
      case True
      with cl a b show ?thesis
        using samePdfFree_recordFailure [OF R] by (auto simp: tryMilestone_def)
    next
      case False
      note item = getOrCreateItemByName_forget [OF fg, of "item_fails B (dm_id m)" "dm_userId m"
          "dm_serviceType m"]
      show ?thesis
      proof (cases "getOrCreateItemByName (item_fails B (dm_id m)) (dm_userId m)
                      (dm_serviceType m) (store st)")
        case (Inl e)
        with item have "getOrCreateItemByName (item_fails B (dm_id m)) (dm_userId m)
                      (dm_serviceType m) (store st') = Inl e"
          by (cases "getOrCreateItemByName (item_fails B (dm_id m)) (dm_userId m)
                      (dm_serviceType m) (store st')") simp_all
        with Inl cl False a b show ?thesis
          using samePdfFree_recordFailure [OF R] by (auto simp: tryMilestone_def)
      next
        case (Inr v)
        obtain itemId s1 where v: "v = (itemId, s1)" by (cases v)
        from Inr item obtain s1' where
          i': "getOrCreateItemByName (item_fails B (dm_id m)) (dm_userId m)
                 (dm_serviceType m) (store st') = Inr (itemId, s1')"
          and fg1: "forgetPdf s1 = forgetPdf s1'"
          by (cases "getOrCreateItemByName (item_fails B (dm_id m)) (dm_userId m)
                      (dm_serviceType m) (store st')") (auto simp: v)
        from a Inr v cl False obtain st1 where
          l1: "forOf (processClient E B m itemId) clients (st\<lparr>store := s1\<rparr>) = Some st1"
          and x: "x = markMilestone B m st1"
          by (auto simp: tryMilestone_def split: option.splits)
        from b i' cl False obtain st1' where
          l2: "forOf (processClient E (otherPdf B q r u p) m itemId) clients (st'\<lparr>store := s1'\<rparr>)
                 = Some st1'"
          and y: "y = markMilestone B m st1'"
          by (auto simp: tryMilestone_def split: option.splits)
        have "samePdfFree st1 st1'"
          using l1 l2 by (rule clients_same) (rule samePdfFree_store [OF R fg1])
        then show ?thesis by (simp add: x y markMilestone_same)
      qed
    qed
  qed
qed

lemma processMilestone_same:
  assumes "samePdfFree st st'"
    and "processMilestone E B m st = Some x"
    and "processMilestone E (otherPdf B q r u p) m st' = Some y"
  shows "samePdfFree x y"
proof -
  have "samePdfFree (st\<lparr>summary := (summary st)\<lparr>processed := processed (summary st) + 1\<rparr>\<rparr>)
          (st'\<lparr>summary := (summary st')\<lparr>processed := processed (summary st') + 1\<rparr>\<rparr>)"
    using assms(1) by (simp add: samePdfFree_def)
  then show ?thesis
    using assms(2,3) unfolding processMilestone_def by (rule tryMilestone_same)
qed

lemma milestones_same:
  assumes "forOf (processMilestone E B) ms st = Some a"
    and "forOf (processMilestone E (otherPdf B q r u p)) ms st' = Some b"
    and "samePdfFree st st'"
  shows "samePdfFree a b"
  using assms(1,2,3)
  by (rule forOf_related) (rule processMilestone_same)

lemma run_same:
  assumes a: "processMilestoneInvoices E B (s, bs) = Some (r1, s1, b1)"
    and b: "processMilestoneInvoices E (otherPdf B q r u p) (s, bs) = Some (r2, s2, b2)"
  shows "r1 = r2 \<and> forgetPdf s1 = forgetPdf s2"
proof (cases "connect_fails B = None \<and> query_fails B = None")
  case False
  with a b show ?thesis
    by (auto simp: processMilestoneInvoices_def split: option.splits)
next
  case True
  have R: "samePdfFree \<lparr>summary = emptyResult, store = s, artifacts = bs\<rparr>
             \<lparr>summary = emptyResult, store = s, artifacts = bs\<rparr>"
    by (simp add: samePdfFree_def)
  from a True obtain fin where f1: "forOf (processMilestone E B)
      (dueMilestones s (localDay (env_tz E) (env_now E)))
      \<lparr>summary = emptyResult, store = s, artifacts = bs\<rparr> = Some fin"
    and o1: "r1 = Inr (summary fin)" "s1 = store fin"
    by (auto simp: processMilestoneInvoices_def split: option.splits)
  from b True obtain fin' where f2: "forOf (processMilestone E (otherPdf B q r u p))
      (dueMilestones s (localDay (env_tz E) (env_now E)))
      \<lparr>summary = emptyResult, store = s, artifacts = bs\<rparr> = Some fin'"
    and o2: "r2 = Inr (summary fin')" "s2 = store fin'"
    by (auto simp: processMilestoneInvoices_def split: option.splits)
  from milestones_same [OF f1 f2 R] show ?thesis
    by (simp add: o1 o2 samePdfFree_def)
qed

lemma newInvoiceRow_file: "invoice_file_name (newInvoiceRow E d s) = None"
  by (simp add: newInvoiceRow_def)

lemma mapInvoiceToResponse_id: "inv_id (mapInvoiceToResponse r) = inv_id r"
  by (simp add: mapInvoiceToResponse_def)

lemma generateAndUploadPdf_failed:
  "generateAndUploadPdf E B resp u (s, bs) = Some (Inl e, s2, bs2) \<Longrightarrow> s2 = s"
  by (auto simp: generateAndUploadPdf_def Let_def split: sum.splits option.splits prod.splits)

text \<open>
  C5, as amended. When the PDF steps of a client (\<open>generateInvoicePdf\<close>, the upload, the
  patch of the file name) end with an error, that error is caught and only logged: the
  iteration completes, the client is counted in \<open>created\<close>, no entry is added to the error
  list and the store is as \<open>createInvoice\<close> left it. The remaining clients and milestones
  are processed as if nothing had failed: two runs that return and differ only in what the
  queries, the drawing, the upload and the patch of their PDF steps do return the same
  summary and leave the same store up to the PDF pointers. A run returns its summary, with
  every due milestone counted in \<open>processed\<close>, when its connection and its batch query
  succeed and no promise of \<open>generateInvoicePdf\<close> is left pending, that is, when the
  connections of \<open>generateInvoicePdf\<close> succeed and no drawing throws. The loop over the
  clients of one milestone, when it ends, has counted each of them once, in \<open>created\<close> or
  in \<open>failed\<close>.
\<close>

theorem pdf_failures_are_only_logged:
  "(createInvoice E (create_fails B (dm_id m) c) False (milestoneInvoiceData B m itemId c)
      (store st) = (Inr resp, s1) \<and>
    generateAndUploadPdf E B resp (dm_userId m) (s1, artifacts st) = Some (Inl e, s2, bs2) \<longrightarrow>
      processClient E B m itemId c st
        = Some \<lparr>summary = (summary st)\<lparr>created := created (summary st) + 1\<rparr>,
                store = s1, artifacts = bs2\<rparr>) \<and>
   (processMilestoneInvoices E B (s, bs) = Some (r1, t1, b1) \<and>
    processMilestoneInvoices E (otherPdf B q r u p) (s, bs) = Some (r2, t2, b2) \<longrightarrow>
      r1 = r2 \<and> forgetPdf t1 = forgetPdf t2) \<and>
   (connect_fails B = None \<and> query_fails B = None \<and> (\<forall>i. \<not> pdfConnect_fails B i) \<and>
    (\<forall>x. ends (render B x)) \<longrightarrow>
      (\<exists>res s' bs'. processMilestoneInvoices E B (s, bs) = Some (Inr res, s', bs') \<and>
         processed res = length (dueMilestones s (localDay (env_tz E) (env_now E))))) \<and>
   (forOf (processClient E B m itemId) cs st = Some fin \<longrightarrow>
      created (summary fin) + failed (summary fin)
        = created (summary st) + failed (summary st) + length cs)"
proof (intro conjI impI)
  assume a: "createInvoice E (create_fails B (dm_id m) c) False (milestoneInvoiceData B m itemId c)
      (store st) = (Inr resp, s1) \<and>
    generateAndUploadPdf E B resp (dm_userId m) (s1, artifacts st) = Some (Inl e, s2, bs2)"
  then have "s2 = s1" using generateAndUploadPdf_failed [of E B resp "dm_userId m" s1] by blast
  with a show "processClient E B m itemId c st
        = Some \<lparr>summary = (summary st)\<lparr>created := created (summary st) + 1\<rparr>,
                store = s1, artifacts = bs2\<rparr>"
    by (simp add: processClient_def)
next
  assume "processMilestoneInvoices E B (s, bs) = Some (r1, t1, b1) \<and>
    processMilestoneInvoices E (otherPdf B q r u p) (s, bs) = Some (r2, t2, b2)"
  then have "r1 = r2 \<and> forgetPdf t1 = forgetPdf t2"
    using run_same [of E B s bs r1 t1 b1 q r u p r2 t2 b2] by simp
  then show "r1 = r2" and "forgetPdf t1 = forgetPdf t2" by simp_all
next
  assume "connect_fails B = None \<and> query_fails B = None \<and> (\<forall>i. \<not> pdfConnect_fails B i) \<and>
    (\<forall>x. ends (render B x))"
  then show "\<exists>res s' bs'. processMilestoneInvoices E B (s, bs) = Some (Inr res, s', bs') \<and>
         processed res = length (dueMilestones s (localDay (env_tz E) (env_now E)))"
    using run_returns [of B E s bs] by simp
next
  assume "forOf (processClient E B m itemId) cs st = Some fin"
  then show "created (summary fin) + failed (summary fin)
        = created (summary st) + failed (summary st) + length cs"
    by (rule clients_counts)
qed

lemma exUploadFails_invoiceData:
  "milestoneInvoiceData exUploadFails = milestoneInvoiceData exBatch"
  by (simp add: milestoneInvoiceData_def invoiceDay_def fun_eq_iff exUploadFails_def)

lemma exResp_create:
  "createInvoice exEnv False False (milestoneInvoiceData exBatch exDue 2 21) exBatchDb
     = (Inr exResp, exAfterCreate)"
proof -
  have "fst (createInvoice exEnv False False
     (milestoneInvoiceData exBatch exDue 2 21) exBatchDb) = Inr exResp"
    by (simp add: createInvoice_def exResp_def exBatchDb_def exDb_def exDue_def
        milestoneInvoiceData_def itemsOf_def itemKnown_def natOrNull_def Let_def)
  then show ?thesis
    by (simp add: exAfterCreate_def prod_eq_iff)
qed

lemma exResp_id: "inv_id exResp = 6"
  by (simp add: exResp_def mapInvoiceToResponse_id newInvoiceRow_def exBatchDb_def exDb_def)

lemma exResp_name: "pdfNameOf exResp = ''INV-6.pdf''"
  by (simp add: exResp_def pdfNameOf_def mapInvoiceToResponse_def newInvoiceRow_def
      milestoneInvoiceData_def strOrNull_def exEnv_def exBatchDb_def exDb_def show_nat.simps digit_def)

lemma exResp_render:
  "generateInvoicePdf False None (\<lambda>r. Drawn ''%PDF'') exAfterCreate 6 7 = Some (Inr ''%PDF'')"
  by code_simp

lemma exRun_fields:
  "summary exRun = \<lparr>processed = 1, created = 0, failed = 0, errors = []\<rparr>"
  "store exRun = exBatchDb" "artifacts exRun = Map.empty"
  by (simp_all add: exRun_def emptyResult_def)

lemma exDue_fields: "dm_userId exDue = 7" "dm_id exDue = 11"
  by (simp_all add: exDue_def)

lemma exUploadFails_fields:
  "connect_fails exUploadFails = None" "query_fails exUploadFails = None"
  "create_fails exUploadFails = (\<lambda>m c. False)"
  "pdfConnect_fails exUploadFails = (\<lambda>i. False)" "pdfQuery_fails exUploadFails = (\<lambda>i. None)"
  "render exUploadFails = (\<lambda>r. Drawn ''%PDF'')"
  "pdfUpload_fails exUploadFails = (\<lambda>i. Some (Error ''storage unavailable''))"
  by (simp_all add: exUploadFails_def exBatch_def)

lemma exUploadFails_other:
  "otherPdf exUploadFails (\<lambda>i. None) (\<lambda>r. Drawn ''%PDF'') (\<lambda>i. None) (\<lambda>i. None) = exBatch"
  by (simp add: otherPdf_def exUploadFails_def exBatch_def)

lemma exBatch_fields:
  "connect_fails exBatch = None" "query_fails exBatch = None"
  "pdfConnect_fails exBatch = (\<lambda>i. False)" "render exBatch = (\<lambda>r. Drawn ''%PDF'')"
  by (simp_all add: exBatch_def)

lemma exUploadFails_pdf:
  "generateAndUploadPdf exEnv exUploadFails exResp 7 (exAfterCreate, Map.empty)
     = Some (Inl (Error ''storage unavailable''), exAfterCreate, Map.empty)"
  by (simp add: generateAndUploadPdf_def exUploadFails_fields exResp_id exResp_render
      uploadFile_def Let_def)

text \<open>
  The theorem at work for client 21 of milestone 11 when the upload throws, and on the
  runs over the store with milestone 11 with and without that failure.
\<close>

theorem pdf_failures_are_only_logged_witness:
  "createInvoice exEnv (create_fails exUploadFails (dm_id exDue) 21) False
     (milestoneInvoiceData exUploadFails exDue 2 21) (store exRun) = (Inr exResp, exAfterCreate) \<and>
   generateAndUploadPdf exEnv exUploadFails exResp (dm_userId exDue) (exAfterCreate, artifacts exRun)
     = Some (Inl (Error ''storage unavailable''), exAfterCreate, Map.empty) \<and>
   processClient exEnv exUploadFails exDue 2 21 exRun
     = Some \<lparr>summary = \<lparr>processed = 1, created = 1, failed = 0, errors = []\<rparr>,
             store = exAfterCreate, artifacts = Map.empty\<rparr> \<and>
   (\<exists>res t1 b1 t2 b2.
      processMilestoneInvoices exEnv exUploadFails (exBatchDb, Map.empty) = Some (Inr res, t1, b1) \<and>
      processMilestoneInvoices exEnv exBatch (exBatchDb, Map.empty) = Some (Inr res, t2, b2) \<and>
      forgetPdf t1 = forgetPdf t2 \<and> processed res = 1) \<and>
   (\<exists>fin. forOf (processClient exEnv exUploadFails exDue 2) [21, 22] exRun = Some fin \<and>
      created (summary fin) + failed (summary fin) = 2)"
proof -
  have h1: "createInvoice exEnv (create_fails exUploadFails (dm_id exDue) 21) False
     (milestoneInvoiceData exUploadFails exDue 2 21) (store exRun) = (Inr exResp, exAfterCreate)"
    by (simp add: exUploadFails_fields exUploadFails_invoiceData exRun_fields exResp_create)
  have h2: "generateAndUploadPdf exEnv exUploadFails exResp (dm_userId exDue)
     (exAfterCreate, artifacts exRun)
     = Some (Inl (Error ''storage unavailable''), exAfterCreate, Map.empty)"
    by (simp add: exDue_fields exRun_fields exUploadFails_pdf)
  note t = pdf_failures_are_only_logged [where E = exEnv and m = exDue and c = 21
      and itemId = 2 and st = exRun and s = exBatchDb and bs = Map.empty]
  from t [where B = exUploadFails and resp = exResp and ?s1.0 = exAfterCreate
      and e = "Error ''storage unavailable''" and ?s2.0 = exAfterCreate and ?bs2.0 = Map.empty]
    h1 h2
  have c1: "processClient exEnv exUploadFails exDue 2 21 exRun
     = Some \<lparr>summary = \<lparr>processed = 1, created = 1, failed = 0, errors = []\<rparr>,
             store = exAfterCreate, artifacts = Map.empty\<rparr>"
    by (simp add: exRun_fields)
  have due: "length (dueMilestones exBatchDb (localDay (env_tz exEnv) (env_now exEnv))) = 1"
    by code_simp
  have e1: "connect_fails exUploadFails = None \<and> query_fails exUploadFails = None \<and>
      (\<forall>i. \<not> pdfConnect_fails exUploadFails i) \<and> (\<forall>x. ends (render exUploadFails x))"
    by (simp add: exUploadFails_fields ends_def)
  have e2: "connect_fails exBatch = None \<and> query_fails exBatch = None \<and>
      (\<forall>i. \<not> pdfConnect_fails exBatch i) \<and> (\<forall>x. ends (render exBatch x))"
    by (simp add: exBatch_fields ends_def)
  from t [where B = exUploadFails, THEN conjunct2, THEN conjunct2, THEN conjunct1, THEN mp, OF e1]
  obtain res t1 b1 where
    r1: "processMilestoneInvoices exEnv exUploadFails (exBatchDb, Map.empty) = Some (Inr res, t1, b1)"
    and pr: "processed res = 1"
    unfolding due by blast
  from t [where B = exBatch, THEN conjunct2, THEN conjunct2, THEN conjunct1, THEN mp, OF e2]
  obtain res' t2 b2 where
    r2: "processMilestoneInvoices exEnv exBatch (exBatchDb, Map.empty) = Some (Inr res', t2, b2)"
    by blast
  have r2': "processMilestoneInvoices exEnv
      (otherPdf exUploadFails (\<lambda>i. None) (\<lambda>r. Drawn ''%PDF'') (\<lambda>i. None) (\<lambda>i. None))
      (exBatchDb, Map.empty) = Some (Inr res', t2, b2)"
    by (simp only: exUploadFails_other r2)
  from t [where B = exUploadFails, THEN conjunct2, THEN conjunct1, THEN mp, OF conjI, OF r1 r2']
  have eq: "res = res'" "forgetPdf t1 = forgetPdf t2"
    by simp_all
  have "\<exists>fin. forOf (processClient exEnv exUploadFails exDue 2) [21, 22] exRun = Some fin"
    by (rule forOf_returns, rule processClient_returns) (simp_all add: exUploadFails_fields ends_def)
  then obtain fin where
    l: "forOf (processClient exEnv exUploadFails exDue 2) [21, 22] exRun = Some fin"
    by blast
  from t [where B = exUploadFails and cs = "[21, 22]" and fin = fin, THEN conjunct2, THEN conjunct2,
      THEN conjunct2, THEN mp, OF l]
  have n: "created (summary fin) + failed (summary fin) = 2"
    by (simp add: exRun_fields)
  from h1 h2 c1 r1 r2 pr eq l n show ?thesis by blast
qed

text \<open>
  C2, as amended. When the invoice of a client was inserted, rendered and uploaded and the
  final patch of its file name throws, the error is caught inside the client's iteration:
  the iteration completes, the client is counted in \<open>created\<close> and no error entry is added;
  the uploaded PDF is left in the artifact store; the invoice row is not rolled back, it
  remains with an empty file name.
\<close>

theorem patch_failure_in_batch:
  "createInvoice E (create_fails B (dm_id m) c) False (milestoneInvoiceData B m itemId c)
     (store st) = (Inr resp, s1) \<and>
   generateInvoicePdf (pdfConnect_fails B (inv_id resp)) (pdfQuery_fails B (inv_id resp))
     (render B) s1 (inv_id resp) (dm_userId m) = Some (Inr pdf) \<and>
   pdfUpload_fails B (inv_id resp) = None \<and>
   pdfPatch_fails B (inv_id resp) = Some e \<longrightarrow>
     generateAndUploadPdf E B resp (dm_userId m) (s1, artifacts st)
       = Some (Inl e, s1,
               (artifacts st)(''Invoices/'' @ show_nat (dm_userId m) @ ''/'' @ pdfNameOf resp
                                \<mapsto> (pdf, ''application/pdf''))) \<and>
     processClient E B m itemId c st
       = Some \<lparr>summary = (summary st)\<lparr>created := created (summary st) + 1\<rparr>,
               store = s1,
               artifacts =
                 (artifacts st)(''Invoices/'' @ show_nat (dm_userId m) @ ''/'' @ pdfNameOf resp
                                  \<mapsto> (pdf, ''application/pdf''))\<rparr> \<and>
     inv_id (last (invoices s1)) = inv_id resp \<and>
     invoice_file_name (last (invoices s1)) = None"
proof
  assume a: "createInvoice E (create_fails B (dm_id m) c) False (milestoneInvoiceData B m itemId c)
      (store st) = (Inr resp, s1) \<and>
    generateInvoicePdf (pdfConnect_fails B (inv_id resp)) (pdfQuery_fails B (inv_id resp))
      (render B) s1 (inv_id resp) (dm_userId m) = Some (Inr pdf) \<and>
    pdfUpload_fails B (inv_id resp) = None \<and>
    pdfPatch_fails B (inv_id resp) = Some e"
  then have c: "createInvoice E (create_fails B (dm_id m) c) False
      (milestoneInvoiceData B m itemId c) (store st) = (Inr resp, s1)" by simp
  have g: "generateAndUploadPdf E B resp (dm_userId m) (s1, artifacts st) =
      Some (Inl e, s1, (artifacts st)(''Invoices/'' @ show_nat (dm_userId m) @ ''/'' @ pdfNameOf resp
                           \<mapsto> (pdf, ''application/pdf'')))"
    using a
    by (simp add: generateAndUploadPdf_def uploadFile_def updateInvoicePdfFilename_def
        blobPathOf_def kindDir_def pdfNameOf_def Let_def)
  have p: "processClient E B m itemId c st
       = Some \<lparr>summary = (summary st)\<lparr>created := created (summary st) + 1\<rparr>,
               store = s1,
               artifacts =
                 (artifacts st)(''Invoices/'' @ show_nat (dm_userId m) @ ''/'' @ pdfNameOf resp
                                  \<mapsto> (pdf, ''application/pdf''))\<rparr>"
    by (simp add: processClient_def c g)
  from createInvoice_Inr [OF c]
  have "inv_id (last (invoices s1)) = inv_id resp"
    and "invoice_file_name (last (invoices s1)) = None"
    by (simp_all add: mapInvoiceToResponse_id newInvoiceRow_file)
  with g p show "generateAndUploadPdf E B resp (dm_userId m) (s1, artifacts st)
       = Some (Inl e, s1,
               (artifacts st)(''Invoices/'' @ show_nat (dm_userId m) @ ''/'' @ pdfNameOf resp
                                \<mapsto> (pdf, ''application/pdf''))) \<and>
     processClient E B m itemId c st
       = Some \<lparr>summary = (summary st)\<lparr>created := created (summary st) + 1\<rparr>,
               store = s1,
               artifacts =
                 (artifacts st)(''Invoices/'' @ show_nat (dm_userId m) @ ''/'' @ pdfNameOf resp
                                  \<mapsto> (pdf, ''application/pdf''))\<rparr> \<and>
     inv_id (last (invoices s1)) = inv_id resp \<and>
     invoice_file_name (last (invoices s1)) = None"
    by blast
qed

lemma exPatchFails_invoiceData:
  "milestoneInvoiceData exPatchFails = milestoneInvoiceData exBatch"
  by (simp add: milestoneInvoiceData_def invoiceDay_def fun_eq_iff exPatchFails_def)

lemma exPatchFails_fields:
  "create_fails exPatchFails = (\<lambda>m c. False)"
  "pdfConnect_fails exPatchFails = (\<lambda>i. False)" "pdfQuery_fails exPatchFails = (\<lambda>i. None)"
  "render exPatchFails = (\<lambda>r. Drawn ''%PDF'')"
  "pdfUpload_fails exPatchFails = (\<lambda>i. None)"
  "pdfPatch_fails exPatchFails = (\<lambda>i. Some (Error ''connection terminated''))"
  by (simp_all add: exPatchFails_def exBatch_def)

text \<open>The theorem at work for client 21 of milestone 11 when the patch throws.\<close>

theorem patch_failure_in_batch_witness:
  "createInvoice exEnv (create_fails exPatchFails (dm_id exDue) 21) False
     (milestoneInvoiceData exPatchFails exDue 2 21) (store exRun) = (Inr exResp, exAfterCreate) \<and>
   generateInvoicePdf (pdfConnect_fails exPatchFails (inv_id exResp))
     (pdfQuery_fails exPatchFails (inv_id exResp)) (render exPatchFails) exAfterCreate
     (inv_id exResp) (dm_userId exDue) = Some (Inr ''%PDF'') \<and>
   pdfUpload_fails exPatchFails (inv_id exResp) = None \<and>
   pdfPatch_fails exPatchFails (inv_id exResp) = Some (Error ''connection terminated'') \<and>
   processClient exEnv exPatchFails exDue 2 21 exRun
     = Some \<lparr>summary = \<lparr>processed = 1, created = 1, failed = 0, errors = []\<rparr>,
             store = exAfterCreate,
             artifacts = [''Invoices/7/INV-6.pdf'' \<mapsto> (''%PDF'', ''application/pdf'')]\<rparr> \<and>
   inv_id (last (invoices exAfterCreate)) = 6 \<and>
   invoice_file_name (last (invoices exAfterCreate)) = None"
proof -
  have h: "createInvoice exEnv (create_fails exPatchFails (dm_id exDue) 21) False
     (milestoneInvoiceData exPatchFails exDue 2 21) (store exRun) = (Inr exResp, exAfterCreate) \<and>
    generateInvoicePdf (pdfConnect_fails exPatchFails (inv_id exResp))
      (pdfQuery_fails exPatchFails (inv_id exResp)) (render exPatchFails) exAfterCreate
      (inv_id exResp) (dm_userId exDue) = Some (Inr ''%PDF'') \<and>
    pdfUpload_fails exPatchFails (inv_id exResp) = None \<and>
    pdfPatch_fails exPatchFails (inv_id exResp) = Some (Error ''connection terminated'')"
    by (simp add: exPatchFails_fields exPatchFails_invoiceData exRun_fields exResp_create exResp_id
        exDue_fields exResp_render)
  have sn: "show_nat 7 = ''7''" by (simp add: show_nat.simps digit_def)
  note t = patch_failure_in_batch [where E = exEnv and B = exPatchFails and m = exDue and c = 21
      and itemId = 2 and st = exRun and resp = exResp and ?s1.0 = exAfterCreate
      and pdf = "''%PDF''" and e = "Error ''connection terminated''", THEN mp, OF h]
  from t h show ?thesis
    by (simp add: exRun_fields exDue_fields sn exResp_name exResp_id)
qed

text \<open>
  C3 (the code departs from the claim). The claim: every examined milestone ends
  \<open>created\<close>, also when its project has no clients. With no clients the iteration records
  the error and \<open>continue\<close>s before the status update: milestone 11 is counted as
  processed and failed, and its status is still \<open>pending\<close> after the run.
\<close>

theorem zero_clients_stay_pending:
  "(case processMilestoneInvoices exEnv exNoClients (exBatchDb, Map.empty) of
      None \<Rightarrow> False
    | Some (r, s, bs) \<Rightarrow>
        r = Inr \<lparr>processed = 1, created = 0, failed = 1,
                 errors = [(11, ''No clients found for project 4'')]\<rparr> \<and>
        map (\<lambda>m. (apm_id m, apm_status m)) (agreement_payment_milestones s)
          = [(11, Some ''pending'')])"
  by code_simp

text \<open>
  C4 (the code departs from the claim). The claim: a second run on the same day finds no
  pending milestone. After a first run in which milestone 11 had no clients, the query of
  a second run returns milestone 11 again; the second run processes it again, and creates
  its invoices when the project has clients by then.
\<close>

theorem second_run_finds_milestone_again:
  "(case processMilestoneInvoices exEnv exNoClients (exBatchDb, Map.empty) of
      None \<Rightarrow> False
    | Some (r1, s1, bs1) \<Rightarrow>
        map dm_id (dueMilestones s1 (localDay (env_tz exEnv) (env_now exEnv))) = [11] \<and>
        (case processMilestoneInvoices exEnv exNoClients (s1, bs1) of
           None \<Rightarrow> False
         | Some (r2, s2, bs2) \<Rightarrow>
             r2 = Inr \<lparr>processed = 1, created = 0, failed = 1,
                       errors = [(11, ''No clients found for project 4'')]\<rparr>) \<and>
        (case processMilestoneInvoices exEnv exBatch (s1, bs1) of
           None \<Rightarrow> False
         | Some (r2, s2, bs2) \<Rightarrow>
             r2 = Inr \<lparr>processed = 1, created = 2, failed = 0, errors = []\<rparr> \<and>
             map inv_id (invoices s2) = [5, 6, 7]))"
  by code_simp

text \<open>
  C5, counterexample. The claim: an artifact-upload failure is recorded in the returned
  error list. With an upload that always throws the run creates both invoices, without a
  PDF, and returns an empty error list and \<open>failed = 0\<close>.
\<close>

theorem upload_failure_not_recorded:
  "(case processMilestoneInvoices exEnv exUploadFails (exBatchDb, Map.empty) of
      None \<Rightarrow> False
    | Some (r, s, bs) \<Rightarrow>
        r = Inr \<lparr>processed = 1, created = 2, failed = 0, errors = []\<rparr> \<and>
        map (\<lambda>x. (inv_id x, inv_clientId x, invoice_file_name x)) (invoices s)
          = [(5, 21, Some ''INV-5.pdf''), (6, 21, None), (7, 22, None)] \<and>
        bs ''Invoices/7/INV-6.pdf'' = None)"
  by code_simp

text \<open>
  C2, counterexample. The claim: when the final patch fails the uploaded artifact is
  deleted and the error propagates. With a patch that always throws the run returns its
  summary with an empty error list, invoice 6 has no file name, and its PDF is still in the
  store.
\<close>

theorem patch_failure_keeps_artifact:
  "(case processMilestoneInvoices exEnv exPatchFails (exBatchDb, Map.empty) of
      None \<Rightarrow> False
    | Some (r, s, bs) \<Rightarrow>
        r = Inr \<lparr>processed = 1, created = 2, failed = 0, errors = []\<rparr> \<and>
        map (\<lambda>x. (inv_id x, invoice_file_name x)) (invoices s)
          = [(5, Some ''INV-5.pdf''), (6, None), (7, None)] \<and>
        bs ''Invoices/7/INV-6.pdf'' = Some (''%PDF'', ''application/pdf''))"
  by code_simp

text \<open>
  A drawing that throws leaves the promise of \<open>generateInvoicePdf\<close> pending, and with it
  the run: the call for milestone 11 does not return.
\<close>

theorem throwing_drawing_hangs_the_run:
  "generateInvoicePdf False None (\<lambda>r. Threw (Error ''font missing'')) exAfterCreate 6 7 = None \<and>
   processMilestoneInvoices exEnv exDrawThrows (exBatchDb, Map.empty) = None"
  by code_simp

section \<open>What a run does to the milestone table\<close>

lemma createInvoice_tables: "agreementTables (snd (createInvoice E f rf d s)) = agreementTables s"
  by (simp add: createInvoice_def agreementTables_def createPaymentReminders_def Let_def
      split: option.splits)

lemma updateInvoicePdfFilename_tables:
  "updateInvoicePdfFilename E fl i u n s = Inr s1 \<Longrightarrow> agreementTables s1 = agreementTables s"
  by (auto simp: updateInvoicePdfFilename_def agreementTables_def split: option.splits if_splits)

lemma generateAndUploadPdf_tables:
  "generateAndUploadPdf E B resp u (s, bs) = Some (out, s2, bs2) \<Longrightarrow>
     agreementTables s2 = agreementTables s"
  by (auto simp: generateAndUploadPdf_def uploadFile_def Let_def
      dest: updateInvoicePdfFilename_tables split: sum.splits option.splits prod.splits)

lemma processClient_tables:
  assumes "processClient E B m i c st = Some a"
  shows "agreementTables (store a) = agreementTables (store st)"
proof (cases "createInvoice E (create_fails B (dm_id m) c) False (milestoneInvoiceData B m i c) (store st)")
  case (Pair r s1)
  have s1: "agreementTables s1 = agreementTables (store st)"
    using createInvoice_tables [of E "create_fails B (dm_id m) c" False
        "milestoneInvoiceData B m i c" "store st"] Pair by simp
  show ?thesis
  proof (cases r)
    case (Inl e)
    with Pair s1 assms show ?thesis by (auto simp: processClient_def)
  next
    case (Inr resp)
    with Pair assms obtain out s2 bs2 where
      g: "generateAndUploadPdf E B resp (dm_userId m) (s1, artifacts st) = Some (out, s2, bs2)"
      and a: "store a = s2"
      by (auto simp: processClient_def split: option.splits)
    from generateAndUploadPdf_tables [OF g] a s1 show ?thesis by simp
  qed
qed

lemma clients_tables:
  assumes "forOf (processClient E B m i) cs st = Some fin"
  shows "agreementTables (store fin) = agreementTables (store st)"
  by (rule forOf_invariant [OF assms,
        where P = "\<lambda>a. agreementTables (store a) = agreementTables (store st)"])
    (simp_all add: processClient_tables)

lemma getOrCreateItemByName_tables:
  "getOrCreateItemByName fl u n s = Inr (i, t) \<Longrightarrow> agreementTables t = agreementTables s"
  by (auto simp: getOrCreateItemByName_def createItem_def agreementTables_def split: option.splits)

lemma getOrCreateItemByName_ok:
  "(\<exists>a. getOrCreateItemByName fl u n s = Inr a) \<longleftrightarrow> fl = None"
  by (auto simp: getOrCreateItemByName_def split: option.splits)

lemma tryMilestone_tables:
  assumes run: "tryMilestone E B m st = Some fin"
  shows "agreementTables (store fin) =
     (if getsMarked B m
      then (markRows (dm_id m) (agreement_payment_milestones (store st)),
            agreement_payment_terms (store st), agreements (store st))
      else agreementTables (store st))"
proof (cases "clients_of B (dm_projectId m) (dm_userId m)")
  case (Inl e)
  with run show ?thesis by (auto simp: tryMilestone_def getsMarked_def recordFailure_def)
next
  case cl: (Inr clients)
  show ?thesis
  proof (cases "clients = []")
    case True
    with cl run show ?thesis by (auto simp: tryMilestone_def getsMarked_def recordFailure_def)
  next
    case False
    show ?thesis
    proof (cases "getOrCreateItemByName (item_fails B (dm_id m)) (dm_userId m)
                    (dm_serviceType m) (store st)")
      case (Inl e)
      then have "item_fails B (dm_id m) \<noteq> None"
        using getOrCreateItemByName_ok [of "item_fails B (dm_id m)" "dm_userId m"
            "dm_serviceType m" "store st"] by auto
      with Inl cl False run show ?thesis
        by (auto simp: tryMilestone_def getsMarked_def recordFailure_def)
    next
      case (Inr v)
      obtain itemId s1 where v: "v = (itemId, s1)" by (cases v)
      from Inr have ok: "item_fails B (dm_id m) = None"
        using getOrCreateItemByName_ok [of "item_fails B (dm_id m)" "dm_userId m"
            "dm_serviceType m" "store st"] by auto
      have t1: "agreementTables s1 = agreementTables (store st)"
        using Inr v by (simp add: getOrCreateItemByName_tables)
      from run Inr v cl False obtain st1 where
        l1: "forOf (processClient E B m itemId) clients (st\<lparr>store := s1\<rparr>) = Some st1"
        and fin: "fin = markMilestone B m st1"
        by (auto simp: tryMilestone_def split: option.splits)
      have t2: "agreementTables (store st1) = agreementTables (store st)"
        using clients_tables [OF l1] by (simp add: t1)
      from cl False ok t2 show ?thesis
        by (auto simp: fin markMilestone_def getsMarked_def recordFailure_def markCreated_def
            agreementTables_def markRows_def split: option.splits)
    qed
  qed
qed

lemma markAll_Nil: "markAll B [] rows = rows"
  by (simp add: markAll_def)

lemma markAll_Cons:
  "markAll B (m # ms) rows =
     markAll B ms (if getsMarked B m then markRows (dm_id m) rows else rows)"
  by (auto simp: markAll_def markRows_def)

lemma processMilestone_tables:
  assumes "processMilestone E B m st = Some fin"
  shows "agreementTables (store fin) =
     (if getsMarked B m
      then (markRows (dm_id m) (agreement_payment_milestones (store st)),
            agreement_payment_terms (store st), agreements (store st))
      else agreementTables (store st))"
  using tryMilestone_tables [OF assms [unfolded processMilestone_def]] by simp

lemma milestones_tables:
  assumes "forOf (processMilestone E B) ms st = Some fin"
  shows "agreementTables (store fin) =
     (markAll B ms (agreement_payment_milestones (store st)),
      agreement_payment_terms (store st), agreements (store st))"
  using assms
proof (induction ms arbitrary: st)
  case Nil
  then show ?case by (simp add: markAll_Nil agreementTables_def)
next
  case (Cons m ms)
  from Cons.prems obtain st1 where b: "processMilestone E B m st = Some st1"
    and r: "forOf (processMilestone E B) ms st1 = Some fin"
    by (auto split: option.splits)
  from processMilestone_tables [OF b]
  have "agreement_payment_milestones (store st1) =
      (if getsMarked B m then markRows (dm_id m) (agreement_payment_milestones (store st))
       else agreement_payment_milestones (store st))"
    and "agreement_payment_terms (store st1) = agreement_payment_terms (store st)"
    and "agreements (store st1) = agreements (store st)"
    by (simp_all add: agreementTables_def split: if_splits)
  with Cons.IH [OF r] show ?case
    by (simp add: markAll_Cons)
qed

lemma run_tables:
  assumes "connect_fails B = None" and "query_fails B = None"
    and "processMilestoneInvoices E B (s, bs) = Some (r, s', bs')"
  shows "agreementTables s' =
     (markAll B (dueMilestones s (localDay (env_tz E) (env_now E))) (agreement_payment_milestones s),
      agreement_payment_terms s, agreements s)"
proof -
  from assms obtain fin where f: "forOf (processMilestone E B)
      (dueMilestones s (localDay (env_tz E) (env_now E)))
      \<lparr>summary = emptyResult, store = s, artifacts = bs\<rparr> = Some fin"
    and s': "s' = store fin"
    by (auto simp: processMilestoneInvoices_def split: option.splits)
  from milestones_tables [OF f] show ?thesis by (simp add: s')
qed

lemma joinMilestone_id: "jm \<in> set (joinMilestone s r) \<Longrightarrow> dm_id jm = apm_id r"
  by (auto simp: joinMilestone_def)

lemma dueMilestones_set:
  "set (dueMilestones s today) =
     (\<Union>r \<in> {r \<in> set (agreement_payment_milestones s). isDue today r}. set (joinMilestone s r))"
  by (auto simp: dueMilestones_def)

lemma due_has_row:
  "m \<in> set (dueMilestones s today) \<Longrightarrow>
     \<exists>r \<in> set (agreement_payment_milestones s). apm_id r = dm_id m"
  using joinMilestone_id by (fastforce simp: dueMilestones_set)

lemma markAll_marks:
  assumes "m \<in> set ms" "getsMarked B m"
  shows "list_all (\<lambda>r. apm_status r = Some ''created'')
           (filter (\<lambda>r. apm_id r = dm_id m) (markAll B ms rows))"
  using assms by (auto simp: markAll_def list_all_iff list_ex_iff)

lemma markAll_ids: "map apm_id (markAll B ms rows) = map apm_id rows"
  by (simp add: markAll_def)

text \<open>
  A due milestone whose project has at least one client, whose item is resolved and whose
  status update succeeds has a row, and every row with its id has status \<open>created\<close> after
  a run that returns, whatever happened for its clients.
\<close>

theorem marked_when_clients_exist:
  "m \<in> set (dueMilestones s (localDay (env_tz E) (env_now E))) \<and> getsMarked B m \<and>
   connect_fails B = None \<and> query_fails B = None \<and>
   processMilestoneInvoices E B (s, bs) = Some (r, s', bs') \<longrightarrow>
     filter (\<lambda>r. apm_id r = dm_id m) (agreement_payment_milestones s') \<noteq> [] \<and>
     list_all (\<lambda>r. apm_status r = Some ''created'')
       (filter (\<lambda>r. apm_id r = dm_id m) (agreement_payment_milestones s'))"
proof
  assume a: "m \<in> set (dueMilestones s (localDay (env_tz E) (env_now E))) \<and> getsMarked B m \<and>
   connect_fails B = None \<and> query_fails B = None \<and>
   processMilestoneInvoices E B (s, bs) = Some (r, s', bs')"
  define ms where "ms = dueMilestones s (localDay (env_tz E) (env_now E))"
  from a have cf: "connect_fails B = None" and q: "query_fails B = None" and m: "m \<in> set ms"
    and g: "getsMarked B m" and run: "processMilestoneInvoices E B (s, bs) = Some (r, s', bs')"
    by (simp_all add: ms_def)
  have rows: "agreement_payment_milestones s' = markAll B ms (agreement_payment_milestones s)"
    using run_tables [OF cf q run] by (simp add: agreementTables_def ms_def)
  from m obtain row where row: "row \<in> set (agreement_payment_milestones s)" "apm_id row = dm_id m"
    using due_has_row [of m s] by (auto simp: ms_def)
  then have "dm_id m \<in> set (map apm_id (markAll B ms (agreement_payment_milestones s)))"
    by (simp add: markAll_ids) force
  then have ne: "filter (\<lambda>r. apm_id r = dm_id m) (markAll B ms (agreement_payment_milestones s)) \<noteq> []"
    by (auto simp: filter_empty_conv)
  show "filter (\<lambda>r. apm_id r = dm_id m) (agreement_payment_milestones s') \<noteq> [] \<and>
     list_all (\<lambda>r. apm_status r = Some ''created'')
       (filter (\<lambda>r. apm_id r = dm_id m) (agreement_payment_milestones s'))"
    using ne markAll_marks [OF m g] by (simp add: rows)
qed

lemma run_nothing_due:
  "dueMilestones s (localDay (env_tz E) (env_now E)) = [] \<Longrightarrow> connect_fails B = None \<Longrightarrow>
   query_fails B = None \<Longrightarrow>
     processMilestoneInvoices E B (s, bs) = Some (Inr emptyResult, s, bs)"
  by (simp add: processMilestoneInvoices_def)

lemma joinMilestone_tables:
  "agreement_payment_terms s' = agreement_payment_terms s \<Longrightarrow> agreements s' = agreements s \<Longrightarrow>
     joinMilestone s' r = joinMilestone s r"
  by (simp add: joinMilestone_def)

lemma joinMilestone_status:
  "joinMilestone s (r\<lparr>apm_status := x\<rparr>) = [] \<longleftrightarrow> joinMilestone s r = []"
  by (simp add: joinMilestone_def)

lemma nothing_due_after:
  assumes all: "list_all (getsMarked B) (dueMilestones s today)"
    and t: "agreement_payment_terms s' = agreement_payment_terms s"
    and a: "agreements s' = agreements s"
    and rows: "agreement_payment_milestones s' =
                 markAll B (dueMilestones s today) (agreement_payment_milestones s)"
  shows "dueMilestones s' today = []"
proof -
  have "joinMilestone s' r' = []"
    if r': "r' \<in> set (agreement_payment_milestones s')" and due: "isDue today r'" for r'
  proof -
    from r' rows obtain r where r: "r \<in> set (agreement_payment_milestones s)"
      and g: "r' = (if list_ex (\<lambda>m. getsMarked B m \<and> dm_id m = apm_id r) (dueMilestones s today)
                    then r\<lparr>apm_status := Some ''created''\<rparr> else r)"
      by (auto simp: markAll_def)
    from due g have nm: "\<not> list_ex (\<lambda>m. getsMarked B m \<and> dm_id m = apm_id r) (dueMilestones s today)"
      by (auto simp: isDue_def)
    with g have eq: "r' = r" by simp
    have "joinMilestone s r = []"
    proof (rule ccontr)
      assume "joinMilestone s r \<noteq> []"
      then obtain jm where jm: "jm \<in> set (joinMilestone s r)" by (cases "joinMilestone s r") auto
      with r due eq have "jm \<in> set (dueMilestones s today)"
        by (auto simp: dueMilestones_set)
      moreover from this all have "getsMarked B jm" by (simp add: list_all_iff)
      moreover from jm have "dm_id jm = apm_id r" by (rule joinMilestone_id)
      ultimately show False using nm by (auto simp: list_ex_iff)
    qed
    then show ?thesis by (simp add: eq joinMilestone_tables [OF t a])
  qed
  then have c: "concat (map (joinMilestone s') (filter (isDue today) (agreement_payment_milestones s'))) = []"
    by (auto simp: concat_eq_Nil_conv)
  show ?thesis
    unfolding dueMilestones_def by (simp only: c sort_key_simps)
qed

text \<open>
  When every milestone a run examines reaches its status update and the run returns, no
  milestone is due and pending after it, and a second run on the same day returns the
  empty summary and leaves store and artifacts as they are.
\<close>

theorem second_run_is_empty:
  "connect_fails B = None \<and> query_fails B = None \<and>
   list_all (getsMarked B) (dueMilestones s (localDay (env_tz E) (env_now E))) \<and>
   connect_fails B2 = None \<and> query_fails B2 = None \<and>
   localDay (env_tz E2) (env_now E2) = localDay (env_tz E) (env_now E) \<and>
   processMilestoneInvoices E B (s, bs) = Some (r1, s1, bs1) \<longrightarrow>
     dueMilestones s1 (localDay (env_tz E) (env_now E)) = [] \<and>
     processMilestoneInvoices E2 B2 (s1, bs1) = Some (Inr emptyResult, s1, bs1)"
proof
  assume h: "connect_fails B = None \<and> query_fails B = None \<and>
   list_all (getsMarked B) (dueMilestones s (localDay (env_tz E) (env_now E))) \<and>
   connect_fails B2 = None \<and> query_fails B2 = None \<and>
   localDay (env_tz E2) (env_now E2) = localDay (env_tz E) (env_now E) \<and>
   processMilestoneInvoices E B (s, bs) = Some (r1, s1, bs1)"
  then have cf: "connect_fails B = None" and q: "query_fails B = None"
    and run: "processMilestoneInvoices E B (s, bs) = Some (r1, s1, bs1)" by simp_all
  have tabs: "agreementTables s1 =
     (markAll B (dueMilestones s (localDay (env_tz E) (env_now E))) (agreement_payment_milestones s),
      agreement_payment_terms s, agreements s)"
    by (rule run_tables [OF cf q run])
  have none: "dueMilestones s1 (localDay (env_tz E) (env_now E)) = []"
    using h tabs by (intro nothing_due_after [where B = B and s = s]) (simp_all add: agreementTables_def)
  moreover have "processMilestoneInvoices E2 B2 (s1, bs1) = Some (Inr emptyResult, s1, bs1)"
    using h none by (intro run_nothing_due) simp_all
  ultimately show "dueMilestones s1 (localDay (env_tz E) (env_now E)) = [] \<and>
     processMilestoneInvoices E2 B2 (s1, bs1) = Some (Inr emptyResult, s1, bs1)"
    by simp
qed

lemma ex_today: "localDay (env_tz exEnv) (env_now exEnv) = 19676"
  by (simp add: exEnv_def localDay_def msPerDay_def)

lemma ex_due: "dueMilestones exBatchDb 19676 = [exDue]"
  by (simp add: dueMilestones_def joinMilestone_def isDue_def exBatchDb_def exDb_def exDue_def)

lemma ex_marked: "getsMarked exBatch exDue"
  by (simp add: getsMarked_def exBatch_def)

lemma ex_run_returns:
  "\<exists>r s' bs'. processMilestoneInvoices exEnv exBatch (exBatchDb, Map.empty) = Some (r, s', bs')"
  using run_returns [of exBatch exEnv exBatchDb Map.empty]
  by (auto simp: exBatch_def ends_def)

text \<open>The theorem at work on milestone 11 with clients 21 and 22.\<close>

theorem marked_when_clients_exist_witness:
  "\<exists>r s' bs'.
     exDue \<in> set (dueMilestones exBatchDb (localDay (env_tz exEnv) (env_now exEnv))) \<and>
     getsMarked exBatch exDue \<and> connect_fails exBatch = None \<and> query_fails exBatch = None \<and>
     processMilestoneInvoices exEnv exBatch (exBatchDb, Map.empty) = Some (r, s', bs') \<and>
     filter (\<lambda>r. apm_id r = 11) (agreement_payment_milestones s') \<noteq> [] \<and>
     list_all (\<lambda>r. apm_status r = Some ''created'')
       (filter (\<lambda>r. apm_id r = 11) (agreement_payment_milestones s'))"
proof -
  from ex_run_returns obtain r s' bs' where
    run: "processMilestoneInvoices exEnv exBatch (exBatchDb, Map.empty) = Some (r, s', bs')"
    by blast
  have h: "exDue \<in> set (dueMilestones exBatchDb (localDay (env_tz exEnv) (env_now exEnv))) \<and>
     getsMarked exBatch exDue \<and> connect_fails exBatch = None \<and> query_fails exBatch = None \<and>
     processMilestoneInvoices exEnv exBatch (exBatchDb, Map.empty) = Some (r, s', bs')"
    by (simp add: ex_today ex_due ex_marked run) (simp add: exBatch_def)
  note t = marked_when_clients_exist [of exDue exBatchDb exEnv exBatch Map.empty r s' bs',
      THEN mp, OF h]
  have i: "dm_id exDue = 11" by (simp add: exDue_def)
  from h t show ?thesis unfolding i by blast
qed

text \<open>The theorem at work on two runs over the store with milestone 11.\<close>

theorem second_run_is_empty_witness:
  "\<exists>r1 s1 bs1.
     connect_fails exBatch = None \<and> query_fails exBatch = None \<and>
     list_all (getsMarked exBatch) (dueMilestones exBatchDb (localDay (env_tz exEnv) (env_now exEnv))) \<and>
     processMilestoneInvoices exEnv exBatch (exBatchDb, Map.empty) = Some (r1, s1, bs1) \<and>
     dueMilestones s1 (localDay (env_tz exEnv) (env_now exEnv)) = [] \<and>
     processMilestoneInvoices exEnv exBatch (s1, bs1) = Some (Inr emptyResult, s1, bs1)"
proof -
  from ex_run_returns obtain r1 s1 bs1 where
    run: "processMilestoneInvoices exEnv exBatch (exBatchDb, Map.empty) = Some (r1, s1, bs1)"
    by blast
  have h: "connect_fails exBatch = None \<and> query_fails exBatch = None \<and>
     list_all (getsMarked exBatch) (dueMilestones exBatchDb (localDay (env_tz exEnv) (env_now exEnv))) \<and>
     connect_fails exBatch = None \<and> query_fails exBatch = None \<and>
     localDay (env_tz exEnv) (env_now exEnv) = localDay (env_tz exEnv) (env_now exEnv) \<and>
     processMilestoneInvoices exEnv exBatch (exBatchDb, Map.empty) = Some (r1, s1, bs1)"
    by (simp add: ex_today ex_due ex_marked run) (simp add: exBatch_def)
  note t = second_run_is_empty [of exBatch exBatchDb exEnv exBatch exEnv Map.empty r1 s1 bs1,
      THEN mp, OF h]
  from h t show ?thesis by blast
qed

section \<open>Rollback in the upload handlers\<close>

text \<open>
  When the record patch of an attachment or PDF upload throws and the storage calls
  succeed, the handler hands the patch's error to \<open>next\<close>, the expense rows are as before
  and the store holds nothing at the path of the new upload.
\<close>

theorem patch_failure_rolls_back_upload:
  "upload_fails F = None \<and> deleteOld_fails F = None \<and> patch_fails F = Some err \<and>
   deleteNew_fails F = None \<longrightarrow>
     (case replaceAttachment F now u i f e w of
        (r, w') \<Rightarrow>
          r = Next err \<and> expenses w' = expenses w \<and>
          blobs w' (''Expense/Uploaded_Documents/'' @ show_nat u @ ''/''
                      @ attachmentName e i now f) = None) \<and>
     (case replacePdf F u i f e w of
        (r, w') \<Rightarrow>
          r = Next err \<and> expenses w' = expenses w \<and>
          blobs w' (''Expense/Generated_pdfs/'' @ show_nat u @ ''/'' @ pdfName e i) = None)"
  by (simp add: replaceAttachment_def replacePdf_def uploadFile_def deleteFile_def
      updateExpenseAttachmentFilename_def updateExpensePdfFilename_def blobPathOf_expense Let_def)

text \<open>The theorem at work on expense 3 of user 7.\<close>

theorem patch_failure_rolls_back_upload_witness:
  "upload_fails patchFault = None \<and> deleteOld_fails patchFault = None \<and>
   patch_fails patchFault = Some (Error ''connection terminated'') \<and>
   deleteNew_fails patchFault = None \<and>
   (case replaceAttachment patchFault 2000 7 3 exUpload exExpense exWorld of
      (r, w') \<Rightarrow>
        r = Next (Error ''connection terminated'') \<and> expenses w' = expenses exWorld \<and>
        blobs w' ''Expense/Uploaded_Documents/7/B1_2000.png'' = None) \<and>
   (case replacePdf patchFault 7 3 exPdfUpload exExpense exWorld of
      (r, w') \<Rightarrow>
        r = Next (Error ''connection terminated'') \<and> expenses w' = expenses exWorld \<and>
        blobs w' ''Expense/Generated_pdfs/7/B1.pdf'' = None)"
proof -
  have h: "upload_fails patchFault = None \<and> deleteOld_fails patchFault = None \<and>
     patch_fails patchFault = Some (Error ''connection terminated'') \<and>
     deleteNew_fails patchFault = None"
    by (simp add: patchFault_def noFaults_def)
  have n1: "attachmentName exExpense 3 2000 exUpload = ''B1_2000.png''"
    by (simp add: ex_defs route_defs)
  have n2: "pdfName exExpense 3 = ''B1.pdf''"
    by (simp add: ex_defs route_defs)
  have sn: "show_nat 7 = ''7''" by (simp add: show_nat.simps digit_def)
  note t1 = patch_failure_rolls_back_upload [where F = patchFault
      and err = "Error ''connection terminated''" and now = 2000 and u = 7 and i = 3
      and f = exUpload and e = exExpense and w = exWorld, THEN mp, OF h, THEN conjunct1]
  note t2 = patch_failure_rolls_back_upload [where F = patchFault
      and err = "Error ''connection terminated''" and now = 2000 and u = 7 and i = 3
      and f = exPdfUpload and e = exExpense and w = exWorld, THEN mp, OF h, THEN conjunct2]
  from t1 t2 h show ?thesis
    by (simp add: n1 n2 sn split: prod.splits)
qed

end
